theory Spec2Isabelle
  imports Main "HOL-Library.Word"
begin

section \<open>Strings and integers of the Go runtime\<close>

text \<open>
  Go strings are byte sequences: \<open>string\<close>. Go's \<open>int\<close> is taken to be 64 bits wide
  (the width on every 64-bit platform); \<open>time.Duration\<close> is an \<open>int64\<close> count of
  nanoseconds.
\<close>

definition isDigit :: "char \<Rightarrow> bool" where
  "isDigit c = (48 \<le> (of_char c :: nat) \<and> (of_char c :: nat) \<le> 57)"

definition digitVal :: "char \<Rightarrow> nat" where
  "digitVal c = (of_char c :: nat) - 48"

fun decimalVal :: "nat \<Rightarrow> string \<Rightarrow> nat" where
  "decimalVal acc [] = acc"
| "decimalVal acc (c # cs) = decimalVal (acc * 10 + digitVal c) cs"

text \<open>
  \<open>strconv.Atoi\<close>: an optional sign, then one or more decimal digits, and a value that
  fits \<open>int\<close>. \<open>None\<close> stands for the \<open>*strconv.NumError\<close> it returns otherwise (the
  empty string, a character that is no digit, a value out of range).
\<close>

definition Atoi :: "string \<Rightarrow> int option" where
  "Atoi s =
     (let (neg, ds) =
            (case s of
               [] \<Rightarrow> (False, [])
             | c # r \<Rightarrow>
                 if c = CHR ''-'' then (True, r)
                 else if c = CHR ''+'' then (False, r)
                 else (False, s));
          v = (if neg then - int (decimalVal 0 ds) else int (decimalVal 0 ds))
      in if ds = [] \<or> \<not> list_all isDigit ds then None
         else if v < - (2 ^ 63) \<or> 2 ^ 63 \<le> v then None
         else Some v)"

definition digitChar :: "nat \<Rightarrow> char" where
  "digitChar d = ''0123456789'' ! d"

fun natDigits :: "nat \<Rightarrow> string" where
  "natDigits n = (if n < 10 then [digitChar n] else natDigits (n div 10) @ [digitChar (n mod 10)])"

declare natDigits.simps [simp del]

text \<open>\<open>strconv.Itoa\<close>, which is also what the verb \<open>%d\<close> of \<open>fmt\<close> prints for an \<open>int\<close>.\<close>

definition Itoa :: "int \<Rightarrow> string" where
  "Itoa i = (if i < 0 then CHR ''-'' # natDigits (nat (- i)) else natDigits (nat i))"

text \<open>
  \<open>strings.Split(s, sep)\<close> for a separator of one byte, the only way the client calls it:
  the pieces between the separators, so one piece more than there are separators, and
  the one empty piece for the empty string.
\<close>

fun Split :: "string \<Rightarrow> char \<Rightarrow> string list" where
  "Split [] sep = [[]]"
| "Split (c # cs) sep =
     (if c = sep then [] # Split cs sep
      else (case Split cs sep of
              [] \<Rightarrow> [[c]]
            | p # ps \<Rightarrow> (c # p) # ps))"

section \<open>Entities\<close>

text \<open>
  Modelled from the spec: package \<open>entities\<close> is not among the sources. The spec's Item
  is a tagged union over Movie, Show and Episode, each carrying external identifiers;
  the client reads the tag \<open>Type\<close> and the three payloads \<open>Movie\<close>, \<open>Show\<close> and
  \<open>Episode\<close>. The payload type (\<open>TraktItemSpec\<close>) is left as a parameter. The three
  tag constants are the spec's names of the variants.
\<close>

record 'spec TraktItem =
  Type :: string
  Movie :: 'spec
  Show :: 'spec
  Episode :: 'spec

definition TraktItemTypeMovie :: string where
  "TraktItemTypeMovie = ''movie''"

definition TraktItemTypeShow :: string where
  "TraktItemTypeShow = ''show''"

definition TraktItemTypeEpisode :: string where
  "TraktItemTypeEpisode = ''episode''"

text \<open>
  Modelled from the spec: \<open>entities.TraktListBody\<close>, the body of an add or a remove, with
  the three collections the mapping appends to. A nil slice is the empty list.
\<close>

record 'spec TraktListBody =
  Movies :: "'spec list"
  Shows :: "'spec list"
  Episodes :: "'spec list"

section \<open>The add-body mapping\<close>

text \<open>
  One pass of the loop of \<open>mapTraktItemsToTraktBody\<close>: the switch on the item's tag.
\<close>

definition mapTraktItem :: "'spec TraktItem \<Rightarrow> 'spec TraktListBody \<Rightarrow> 'spec TraktListBody" where
  "mapTraktItem item res =
     (if Type item = TraktItemTypeMovie then res\<lparr>Movies := Movies res @ [Movie item]\<rparr>
      else if Type item = TraktItemTypeShow then res\<lparr>Shows := Shows res @ [Show item]\<rparr>
      else if Type item = TraktItemTypeEpisode then res\<lparr>Episodes := Episodes res @ [Episode item]\<rparr>
      else res)"

fun mapTraktItemsLoop :: "'spec TraktItem list \<Rightarrow> 'spec TraktListBody \<Rightarrow> 'spec TraktListBody" where
  "mapTraktItemsLoop [] res = res"
| "mapTraktItemsLoop (item # items) res = mapTraktItemsLoop items (mapTraktItem item res)"

definition mapTraktItemsToTraktBody :: "'spec TraktItem list \<Rightarrow> 'spec TraktListBody" where
  "mapTraktItemsToTraktBody items =
     mapTraktItemsLoop items \<lparr>Movies = [], Shows = [], Episodes = []\<rparr>"

definition recognizedType :: "'spec TraktItem \<Rightarrow> bool" where
  "recognizedType item =
     (Type item = TraktItemTypeMovie \<or> Type item = TraktItemTypeShow \<or>
      Type item = TraktItemTypeEpisode)"


section \<open>Requests, responses and errors\<close>

text \<open>
  \<open>requestFields\<close>, as the struct literals of the client fill it. \<open>Body\<close> is the content
  the reader yields; \<open>Headers\<close> is a Go map (nil is the empty map).
\<close>

record requestFields =
  Method :: string
  BasePath :: string
  Endpoint :: string
  Body :: string
  Headers :: "string \<rightharpoonup> string"

text \<open>
  The part of \<open>http.Request\<close> the client sets and of \<open>http.Response\<close> it reads.
  \<open>Header\<close> of a response maps a key to its values, as \<open>http.Header\<close> does;
  \<open>Request\<close> is the request that was sent to obtain the response.
\<close>

record request =
  req_Method :: string
  req_URL :: string
  req_Header :: "string \<rightharpoonup> string"
  req_Body :: string

record response =
  StatusCode :: int
  Header :: "string \<rightharpoonup> string list"
  resp_Body :: string
  Request :: request

text \<open>\<open>http.Header.Get\<close>: the first value of the key, the empty string when there is none.\<close>

definition Header_Get :: "(string \<rightharpoonup> string list) \<Rightarrow> string \<Rightarrow> string" where
  "Header_Get h key = (case h key of None \<Rightarrow> [] | Some [] \<Rightarrow> [] | Some (v # _) \<Rightarrow> v)"

text \<open>What \<open>http.Client.Do\<close> returns: a transport error or a response.\<close>

datatype reply = TransportError string | Response response

text \<open>\<open>ApiError\<close>, with the fields the client's struct literals set.\<close>

record ApiError =
  httpMethod :: string
  url :: string
  err_StatusCode :: int
  details :: string

text \<open>
  The errors the client returns, one constructor per \<open>fmt.Errorf\<close> format or error
  type, holding the format's arguments; a wrapped cause (\<open>%w\<close>) that comes from a
  library is kept as its text.
  \<^item> \<open>CreateRequestError method url cause\<close>: "error creating http request".
  \<^item> \<open>SendRequestError method url cause\<close>: "error sending http request".
  \<^item> \<open>ApiErr e\<close>: \<open>&ApiError{...}\<close>.
  \<^item> \<open>RetryAfterParseError header value\<close>: "failure parsing the value of trakt header
    ... to integer", wrapping the \<open>NumError\<close> of \<open>Atoi\<close> on \<open>value\<close>.
  \<^item> \<open>MaxRetriesError method url\<close>: "reached max retry attempts for".
  \<^item> \<open>ScrapeUsernameError\<close>: "failure scraping trakt username".
  \<^item> \<open>MarshalError cause\<close>: the error of \<open>json.Marshal\<close>, returned as it is.
  \<^item> \<open>UnmarshalError what cause\<close>: "failure unmarshalling ...", wrapping the decoder's.
  \<^item> \<open>ScrapeError cause\<close>: the error of \<open>scrapeSelectionAttribute\<close>.
  \<^item> \<open>FetchListsError e\<close>: "unexpected error while fetching trakt lists", wrapping \<open>e\<close>.
\<close>

datatype error =
    CreateRequestError string string string
  | SendRequestError string string string
  | ApiErr ApiError
  | RetryAfterParseError string string
  | MaxRetriesError string string
  | ScrapeUsernameError
  | MarshalError string
  | UnmarshalError string string
  | ScrapeError string
  | FetchListsError error

text \<open>
  \<open>errors.As(err, &apiError)\<close> for \<open>*ApiError\<close>: the first \<open>*ApiError\<close> along the chain of
  wrapped errors. A cause that a library returned is never one.
\<close>

fun errors_As_ApiError :: "error \<Rightarrow> ApiError option" where
  "errors_As_ApiError (ApiErr e) = Some e"
| "errors_As_ApiError (FetchListsError e) = errors_As_ApiError e"
| "errors_As_ApiError _ = None"

section \<open>Effects\<close>

text \<open>
  The effects of the client, in the order they happen: a request handed to the HTTP
  client, a call of \<open>time.Sleep\<close> with its duration, a line given to the logger (the
  message, without the structured fields).
\<close>

datatype logLine =
    WarnRateLimit "64 word" string string
  | LogInfo string
  | LogDebug string

datatype event = Sent request | Slept "64 word" | Logged logLine

type_synonym world = "event list"

definition requestsSent :: "world \<Rightarrow> request list" where
  "requestsSent w = concat (map (\<lambda>e. case e of Sent r \<Rightarrow> [r] | _ \<Rightarrow> []) w)"

text \<open>
  \<open>time.Sleep d\<close> pauses for at least \<open>d\<close>, and returns at once when \<open>d\<close> is negative or
  zero: the pause that a duration guarantees, in nanoseconds.
\<close>

definition pauseOf :: "64 word \<Rightarrow> int" where
  "pauseOf d = max 0 (sint d)"

definition Second :: "64 word" where
  "Second = 1000000000"

section \<open>Constants of the client\<close>

definition traktHeaderKeyApiKey :: string where "traktHeaderKeyApiKey = ''trakt-api-key''"
definition traktHeaderKeyApiVersion :: string where "traktHeaderKeyApiVersion = ''trakt-api-version''"
definition traktHeaderKeyAuthorization :: string where "traktHeaderKeyAuthorization = ''Authorization''"
definition traktHeaderKeyContentLength :: string where "traktHeaderKeyContentLength = ''Content-Length''"
definition traktHeaderKeyContentType :: string where "traktHeaderKeyContentType = ''Content-Type''"
definition traktHeaderKeyRetryAfter :: string where "traktHeaderKeyRetryAfter = ''Retry-After''"

definition traktFormKeyAuthenticityToken :: string where
  "traktFormKeyAuthenticityToken = ''authenticity_token''"
definition traktFormKeyCommit :: string where "traktFormKeyCommit = ''commit''"

definition traktPathActivateAuthorize :: string where
  "traktPathActivateAuthorize = ''/activate/authorize''"
definition traktPathBaseAPI :: string where "traktPathBaseAPI = ''https://api.trakt.tv''"
definition traktPathBaseBrowser :: string where "traktPathBaseBrowser = ''https://trakt.tv''"
definition traktPathHistory :: string where "traktPathHistory = ''/sync/history''"
definition traktPathHistoryRemove :: string where "traktPathHistoryRemove = ''/sync/history/remove''"
definition traktPathRatings :: string where "traktPathRatings = ''/sync/ratings''"
definition traktPathRatingsRemove :: string where "traktPathRatingsRemove = ''/sync/ratings/remove''"
definition traktPathWatchlist :: string where "traktPathWatchlist = ''/sync/watchlist''"
definition traktPathWatchlistRemove :: string where
  "traktPathWatchlistRemove = ''/sync/watchlist/remove''"

text \<open>The three path formats, with \<open>fmt.Sprintf\<close> of their \<open>%s\<close> arguments written out.\<close>

definition traktPathHistoryGet :: "string \<Rightarrow> string \<Rightarrow> string \<Rightarrow> string" where
  "traktPathHistoryGet t i l = ''/sync/history/'' @ t @ ''/'' @ i @ ''?limit='' @ l"

definition traktPathUserList :: "string \<Rightarrow> string \<Rightarrow> string" where
  "traktPathUserList u l = ''/users/'' @ u @ ''/lists/'' @ l"

definition traktPathUserListItems :: "string \<Rightarrow> string \<Rightarrow> string" where
  "traktPathUserListItems u l = ''/users/'' @ u @ ''/lists/'' @ l @ ''/items''"

definition traktPathUserListItemsRemove :: "string \<Rightarrow> string \<Rightarrow> string" where
  "traktPathUserListItemsRemove u l = ''/users/'' @ u @ ''/lists/'' @ l @ ''/items/remove''"

definition traktStatusCodeEnhanceYourCalm :: int where
  "traktStatusCodeEnhanceYourCalm = 420"

definition traktSyncModeAddOnly :: string where "traktSyncModeAddOnly = ''add-only''"
definition traktSyncModeDryRun :: string where "traktSyncModeDryRun = ''dry-run''"
definition traktSyncModeFull :: string where "traktSyncModeFull = ''full''"

text \<open>Constants of \<open>net/http\<close>.\<close>

definition MethodGet :: string where "MethodGet = ''GET''"
definition MethodPost :: string where "MethodPost = ''POST''"
definition MethodDelete :: string where "MethodDelete = ''DELETE''"
definition StatusOK :: int where "StatusOK = 200"
definition StatusCreated :: int where "StatusCreated = 201"
definition StatusNoContent :: int where "StatusNoContent = 204"
definition StatusNotFound :: int where "StatusNotFound = 404"
definition StatusTooManyRequests :: int where "StatusTooManyRequests = 429"
definition NoBody :: string where "NoBody = []"

section \<open>The client and what it calls outside the source\<close>

text \<open>
  Modelled from the spec: \<open>entities.TraktIds\<close>, \<open>entities.TraktList\<close> and
  \<open>entities.TraktListAddBody\<close> are not among the sources. A list is its identifier (the
  slug), the watchlist flag and its items; the body of a list creation has the fields
  the struct literal of \<open>ListAdd\<close> sets.
\<close>

record TraktIds =
  Slug :: string

record 'spec TraktList =
  Ids :: TraktIds
  IsWatchlist :: bool
  ListItems :: "'spec TraktItem list"

record TraktListAddBody =
  Name :: string
  Description :: string
  Privacy :: string
  DisplayNumbers :: bool
  AllowComments :: bool
  SortBy :: string
  SortHow :: string

text \<open>
  The functions of Go's library and of the rest of the repository that the client calls
  and whose results it cannot decide are parameters: whether \<open>http.NewRequest\<close> refuses a
  method and a URL (\<open>Some\<close> its error), \<open>url.Values.Encode\<close>, \<open>json.Marshal\<close> and the JSON
  decoders (\<open>Inl\<close> the error's text), the clock's reading in the RFC1123 layout,
  \<open>scrapeSelectionAttribute\<close> and the constant \<open>clientNameTrakt\<close>. \<open>'resp\<close> is
  \<open>entities.TraktResponse\<close>.
\<close>

record ('spec, 'resp) golib =
  NewRequest_err :: "string \<Rightarrow> string \<Rightarrow> string option"
  Values_Encode :: "(string \<rightharpoonup> string list) \<Rightarrow> string"
  Marshal_TraktListBody :: "'spec TraktListBody \<Rightarrow> string + string"
  Marshal_TraktListAddBody :: "TraktListAddBody \<Rightarrow> string + string"
  Decode_TraktItems :: "string \<Rightarrow> string + 'spec TraktItem list"
  Decode_TraktLists :: "string \<Rightarrow> string + 'spec TraktList list"
  Decode_TraktResponse :: "string \<Rightarrow> string + 'resp"
  Now_RFC1123 :: "world \<Rightarrow> string"
  scrapeSelectionAttribute :: "string \<Rightarrow> string \<Rightarrow> string \<Rightarrow> string \<Rightarrow> string + string"
  clientNameTrakt :: string

record TraktConfig =
  accessToken :: string
  ClientId :: string
  ClientSecret :: string
  Email :: string
  Password :: string
  username :: string
  SyncMode :: string

text \<open>
  \<open>client\<close> is the \<open>http.Client\<close> together with the servers behind it: what \<open>Do\<close> answers
  to a request, given everything that has happened so far (the request is the last
  event). The logger's lines go to the trace of effects.
\<close>

record TraktClient =
  client :: "world \<Rightarrow> reply"
  config :: TraktConfig

definition Do :: "TraktClient \<Rightarrow> request \<Rightarrow> world \<Rightarrow> reply \<times> world" where
  "Do tc request w = (client tc (w @ [Sent request]), w @ [Sent request])"

text \<open>
  Modelled from the spec: \<open>ReusableReader\<close> is not among the sources. It wraps the body
  stream so that it can be replayed; a body is modelled by its content, which every
  send reads anew.
\<close>

definition ReusableReader :: "string \<Rightarrow> string" where
  "ReusableReader body = body"

definition NewRequest :: "('spec, 'resp) golib \<Rightarrow> string \<Rightarrow> string \<Rightarrow> string \<Rightarrow> string + request" where
  "NewRequest lib method u body =
     (case NewRequest_err lib method u of
        Some err \<Rightarrow> Inl err
      | None \<Rightarrow> Inr \<lparr>req_Method = method, req_URL = u, req_Header = Map.empty, req_Body = body\<rparr>)"

section \<open>The request engine\<close>

text \<open>
  The loop of \<open>doRequest\<close>, from the value of \<open>retries\<close> it is entered with. Closing a
  response body is not an effect of the trace.
\<close>

function doRequestLoop :: "TraktClient \<Rightarrow> request \<Rightarrow> nat \<Rightarrow> world \<Rightarrow> (error + response) \<times> world" where
  "doRequestLoop tc request retries w =
     (if retries < 5 then
        (case Do tc request w of
           (TransportError err, w1) \<Rightarrow>
             (Inl (SendRequestError (req_Method request) (req_URL request) err), w1)
         | (Response response, w1) \<Rightarrow>
             if StatusCode response = StatusOK then (Inr response, w1)
             else if StatusCode response = StatusCreated then (Inr response, w1)
             else if StatusCode response = StatusNoContent then (Inr response, w1)
             else if StatusCode response = StatusNotFound then (Inr response, w1)
             else if StatusCode response = traktStatusCodeEnhanceYourCalm then
               (Inl (ApiErr
                  \<lparr>httpMethod = req_Method (Request response),
                   url = req_URL (Request response),
                   err_StatusCode = StatusCode response,
                   details = ''trakt account limit exceeded, more info here: '' @
                     ''https://github.com/trakt/api-help/discussions/350''\<rparr>), w1)
             else if StatusCode response = StatusTooManyRequests then
               (case Atoi (Header_Get (Header response) traktHeaderKeyRetryAfter) of
                  None \<Rightarrow>
                    (Inl (RetryAfterParseError traktHeaderKeyRetryAfter
                       (Header_Get (Header response) traktHeaderKeyRetryAfter)), w1)
                | Some retryAfter \<Rightarrow>
                    (let duration = (word_of_int retryAfter :: 64 word) * Second
                     in doRequestLoop tc request (Suc retries)
                          (w1 @ [Logged (WarnRateLimit duration (req_Method (Request response))
                                   (req_URL (Request response))),
                                 Slept duration])))
             else
               (Inl (ApiErr
                  \<lparr>httpMethod = req_Method (Request response),
                   url = req_URL (Request response),
                   err_StatusCode = StatusCode response,
                   details = ''unexpected status code '' @ Itoa (StatusCode response)\<rparr>), w1))
      else (Inl (MaxRetriesError (req_Method request) (req_URL request)), w))"
  by pat_completeness auto
termination
  by (relation "measure (\<lambda>(tc, request, retries, w). 5 - retries)") auto

declare doRequestLoop.simps [simp del]

definition doRequest :: "('spec, 'resp) golib \<Rightarrow> TraktClient \<Rightarrow> requestFields \<Rightarrow> world \<Rightarrow> (error + response) \<times> world" where
  "doRequest lib tc rf w =
     (case NewRequest lib (Method rf) (BasePath rf @ Endpoint rf) (ReusableReader (Body rf)) of
        Inl err \<Rightarrow> (Inl (CreateRequestError (Method rf) (BasePath rf @ Endpoint rf) err), w)
      | Inr request \<Rightarrow> doRequestLoop tc (request\<lparr>req_Header := Headers rf\<rparr>) 0 w)"

definition defaultApiHeaders :: "TraktClient \<Rightarrow> (string \<rightharpoonup> string)" where
  "defaultApiHeaders tc =
     [traktHeaderKeyApiVersion \<mapsto> ''2'',
      traktHeaderKeyContentType \<mapsto> ''application/json'',
      traktHeaderKeyApiKey \<mapsto> ClientId (config tc),
      traktHeaderKeyAuthorization \<mapsto> ''Bearer '' @ accessToken (config tc)]"

section \<open>Decoding responses\<close>

definition readTraktLists :: "('spec, 'resp) golib \<Rightarrow> string \<Rightarrow> error + 'spec TraktList list" where
  "readTraktLists lib body =
     (case Decode_TraktLists lib body of
        Inl err \<Rightarrow> Inl (UnmarshalError ''failure unmarshalling trakt lists'' err)
      | Inr ls \<Rightarrow> Inr ls)"

definition readTraktItems :: "('spec, 'resp) golib \<Rightarrow> string \<Rightarrow> error + 'spec TraktItem list" where
  "readTraktItems lib body =
     (case Decode_TraktItems lib body of
        Inl err \<Rightarrow> Inl (UnmarshalError ''failure unmarshalling trakt list'' err)
      | Inr items \<Rightarrow> Inr items)"

definition readTraktListResponse :: "('spec, 'resp) golib \<Rightarrow> string \<Rightarrow> 'spec TraktList \<Rightarrow> error + 'spec TraktList" where
  "readTraktListResponse lib body list =
     (case Decode_TraktItems lib body of
        Inl err \<Rightarrow> Inl (UnmarshalError ''failure unmarshalling trakt list'' err)
      | Inr items \<Rightarrow> Inr (list\<lparr>ListItems := items\<rparr>))"

definition readTraktResponse :: "('spec, 'resp) golib \<Rightarrow> string \<Rightarrow> error + 'resp" where
  "readTraktResponse lib body =
     (case Decode_TraktResponse lib body of
        Inl err \<Rightarrow> Inl (UnmarshalError ''failure unmarshalling trakt response'' err)
      | Inr r \<Rightarrow> Inr r)"

section \<open>The sync operations\<close>

text \<open>
  Every operation takes the trace of effects and returns it extended. An operation that
  returns only an \<open>error\<close> returns \<open>None\<close> for \<open>nil\<close>.
\<close>

definition WatchlistGet :: "('spec, 'resp) golib \<Rightarrow> TraktClient \<Rightarrow> world \<Rightarrow> (error + 'spec TraktList) \<times> world" where
  "WatchlistGet lib tc w =
     (case doRequest lib tc
             \<lparr>Method = MethodGet, BasePath = traktPathBaseAPI,
              Endpoint = traktPathWatchlist,
              Body = NoBody, Headers = defaultApiHeaders tc\<rparr> w of
        (Inl err, w1) \<Rightarrow> (Inl err, w1)
      | (Inr response, w1) \<Rightarrow> (readTraktListResponse lib (resp_Body response)
           \<lparr>Ids = \<lparr>Slug = ''watchlist''\<rparr>, IsWatchlist = True, ListItems = []\<rparr>, w1))"

definition WatchlistItemsAdd :: "('spec, 'resp) golib \<Rightarrow> TraktClient \<Rightarrow> 'spec TraktItem list \<Rightarrow> world \<Rightarrow> error option \<times> world" where
  "WatchlistItemsAdd lib tc items w =
     (if SyncMode (config tc) = traktSyncModeDryRun then
        (None, w @ [Logged (LogInfo (''sync mode dry run would have added '' @ Itoa (int (length items)) @
                   '' trakt list item(s)''))])
      else
        (case Marshal_TraktListBody lib (mapTraktItemsToTraktBody items) of
           Inl err \<Rightarrow> (Some (MarshalError err), w)
         | Inr body \<Rightarrow>
             (case doRequest lib tc
                     \<lparr>Method = MethodPost, BasePath = traktPathBaseAPI,
                      Endpoint = traktPathWatchlist,
                      Body = body, Headers = defaultApiHeaders tc\<rparr> w of
                (Inl err, w1) \<Rightarrow> (Some err, w1)
              | (Inr response, w1) \<Rightarrow>
                  (case readTraktResponse lib (resp_Body response) of
                     Inl err \<Rightarrow> (Some err, w1)
                   | Inr traktResponse \<Rightarrow> (None, w1 @ [Logged (LogInfo ''synced trakt watchlist'')])))))"

definition WatchlistItemsRemove :: "('spec, 'resp) golib \<Rightarrow> TraktClient \<Rightarrow> 'spec TraktItem list \<Rightarrow> world \<Rightarrow> error option \<times> world" where
  "WatchlistItemsRemove lib tc items w =
     (if SyncMode (config tc) = traktSyncModeDryRun \<or> SyncMode (config tc) = traktSyncModeAddOnly then
        (None, w @ [Logged (LogInfo (''sync mode '' @ SyncMode (config tc) @ '' would have deleted '' @
                   Itoa (int (length items)) @ '' trakt list item(s)''))])
      else
        (case Marshal_TraktListBody lib (mapTraktItemsToTraktBody items) of
           Inl err \<Rightarrow> (Some (MarshalError err), w)
         | Inr body \<Rightarrow>
             (case doRequest lib tc
                     \<lparr>Method = MethodPost, BasePath = traktPathBaseAPI,
                      Endpoint = traktPathWatchlistRemove,
                      Body = body, Headers = defaultApiHeaders tc\<rparr> w of
                (Inl err, w1) \<Rightarrow> (Some err, w1)
              | (Inr response, w1) \<Rightarrow>
                  (case readTraktResponse lib (resp_Body response) of
                     Inl err \<Rightarrow> (Some err, w1)
                   | Inr traktResponse \<Rightarrow> (None, w1 @ [Logged (LogInfo ''synced trakt watchlist'')])))))"

definition ListGet :: "('spec, 'resp) golib \<Rightarrow> TraktClient \<Rightarrow> string \<Rightarrow> world \<Rightarrow> (error + 'spec TraktList) \<times> world" where
  "ListGet lib tc listId w =
     (case doRequest lib tc
             \<lparr>Method = MethodGet, BasePath = traktPathBaseAPI,
              Endpoint = traktPathUserListItems (username (config tc)) listId,
              Body = NoBody, Headers = defaultApiHeaders tc\<rparr> w of
        (Inl err, w1) \<Rightarrow> (Inl err, w1)
      | (Inr response, w1) \<Rightarrow>
          if StatusCode response = StatusNotFound then
            (Inl (ApiErr
               \<lparr>httpMethod = req_Method (Request response),
                url = req_URL (Request response),
                err_StatusCode = StatusCode response,
                details = ''list with id '' @ listId @ '' could not be found''\<rparr>), w1)
          else
            (readTraktListResponse lib (resp_Body response)
               \<lparr>Ids = \<lparr>Slug = listId\<rparr>, IsWatchlist = False, ListItems = []\<rparr>, w1))"

definition ListItemsAdd :: "('spec, 'resp) golib \<Rightarrow> TraktClient \<Rightarrow> string \<Rightarrow> 'spec TraktItem list \<Rightarrow> world \<Rightarrow> error option \<times> world" where
  "ListItemsAdd lib tc listId items w =
     (if SyncMode (config tc) = traktSyncModeDryRun then
        (None, w @ [Logged (LogInfo (''sync mode dry run would have added '' @ Itoa (int (length items)) @
                   '' trakt list item(s)''))])
      else
        (case Marshal_TraktListBody lib (mapTraktItemsToTraktBody items) of
           Inl err \<Rightarrow> (Some (MarshalError err), w)
         | Inr body \<Rightarrow>
             (case doRequest lib tc
                     \<lparr>Method = MethodPost, BasePath = traktPathBaseAPI,
                      Endpoint = traktPathUserListItems (username (config tc)) listId,
                      Body = body, Headers = defaultApiHeaders tc\<rparr> w of
                (Inl err, w1) \<Rightarrow> (Some err, w1)
              | (Inr response, w1) \<Rightarrow>
                  (case readTraktResponse lib (resp_Body response) of
                     Inl err \<Rightarrow> (Some err, w1)
                   | Inr traktResponse \<Rightarrow> (None, w1 @ [Logged (LogInfo ''synced trakt list'')])))))"

definition ListItemsRemove :: "('spec, 'resp) golib \<Rightarrow> TraktClient \<Rightarrow> string \<Rightarrow> 'spec TraktItem list \<Rightarrow> world \<Rightarrow> error option \<times> world" where
  "ListItemsRemove lib tc listId items w =
     (if SyncMode (config tc) = traktSyncModeDryRun \<or> SyncMode (config tc) = traktSyncModeAddOnly then
        (None, w @ [Logged (LogInfo (''sync mode '' @ SyncMode (config tc) @ '' would have deleted '' @
                   Itoa (int (length items)) @ '' trakt list item(s)''))])
      else
        (case Marshal_TraktListBody lib (mapTraktItemsToTraktBody items) of
           Inl err \<Rightarrow> (Some (MarshalError err), w)
         | Inr body \<Rightarrow>
             (case doRequest lib tc
                     \<lparr>Method = MethodPost, BasePath = traktPathBaseAPI,
                      Endpoint = traktPathUserListItemsRemove (username (config tc)) listId,
                      Body = body, Headers = defaultApiHeaders tc\<rparr> w of
                (Inl err, w1) \<Rightarrow> (Some err, w1)
              | (Inr response, w1) \<Rightarrow>
                  (case readTraktResponse lib (resp_Body response) of
                     Inl err \<Rightarrow> (Some err, w1)
                   | Inr traktResponse \<Rightarrow> (None, w1 @ [Logged (LogInfo ''synced trakt list'')])))))"

definition ListsMetadataGet :: "('spec, 'resp) golib \<Rightarrow> TraktClient \<Rightarrow> world \<Rightarrow> (error + 'spec TraktList list) \<times> world" where
  "ListsMetadataGet lib tc w =
     (case doRequest lib tc
             \<lparr>Method = MethodGet, BasePath = traktPathBaseAPI,
              Endpoint = traktPathUserList (username (config tc)) [],
              Body = NoBody, Headers = defaultApiHeaders tc\<rparr> w of
        (Inl err, w1) \<Rightarrow> (Inl err, w1)
      | (Inr response, w1) \<Rightarrow> (readTraktLists lib (resp_Body response), w1))"

definition ListAdd :: "('spec, 'resp) golib \<Rightarrow> TraktClient \<Rightarrow> string \<Rightarrow> string \<Rightarrow> world \<Rightarrow> error option \<times> world" where
  "ListAdd lib tc listId listName w =
     (if SyncMode (config tc) = traktSyncModeDryRun then
        (None, w @ [Logged (LogInfo (''sync mode dry run would have created trakt list '' @ listId))])
      else
        (case Marshal_TraktListAddBody lib
                \<lparr>Name = listName,
                 Description =
                   ''list auto imported from imdb by https://github.com/cecobask/imdb-trakt-sync on '' @
                   Now_RFC1123 lib w,
                 Privacy = ''public'',
                 DisplayNumbers = False,
                 AllowComments = True,
                 SortBy = ''rank'',
                 SortHow = ''asc''\<rparr> of
           Inl err \<Rightarrow> (Some (MarshalError err), w)
         | Inr body \<Rightarrow>
             (case doRequest lib tc
                     \<lparr>Method = MethodPost, BasePath = traktPathBaseAPI,
                      Endpoint = traktPathUserList (username (config tc)) [],
                      Body = body, Headers = defaultApiHeaders tc\<rparr> w of
                (Inl err, w1) \<Rightarrow> (Some err, w1)
              | (Inr response, w1) \<Rightarrow>
                  (None, w1 @ [Logged (LogInfo (''created trakt list '' @ listId))]))))"

definition ListRemove :: "('spec, 'resp) golib \<Rightarrow> TraktClient \<Rightarrow> string \<Rightarrow> world \<Rightarrow> error option \<times> world" where
  "ListRemove lib tc listId w =
     (if SyncMode (config tc) = traktSyncModeDryRun \<or> SyncMode (config tc) = traktSyncModeAddOnly then
        (None, w @ [Logged (LogInfo (''sync mode '' @ SyncMode (config tc) @
                   '' would have deleted trakt list '' @ listId))])
      else
        (case doRequest lib tc
                \<lparr>Method = MethodDelete, BasePath = traktPathBaseAPI,
                 Endpoint = traktPathUserList (username (config tc)) listId,
                 Body = NoBody, Headers = defaultApiHeaders tc\<rparr> w of
           (Inl err, w1) \<Rightarrow> (Some err, w1)
         | (Inr response, w1) \<Rightarrow>
             (None, w1 @ [Logged (LogInfo (''removed trakt list '' @ listId))])))"

definition RatingsGet :: "('spec, 'resp) golib \<Rightarrow> TraktClient \<Rightarrow> world \<Rightarrow> (error + 'spec TraktItem list) \<times> world" where
  "RatingsGet lib tc w =
     (case doRequest lib tc
             \<lparr>Method = MethodGet, BasePath = traktPathBaseAPI,
              Endpoint = traktPathRatings,
              Body = NoBody, Headers = defaultApiHeaders tc\<rparr> w of
        (Inl err, w1) \<Rightarrow> (Inl err, w1)
      | (Inr response, w1) \<Rightarrow> (readTraktItems lib (resp_Body response), w1))"

definition RatingsAdd :: "('spec, 'resp) golib \<Rightarrow> TraktClient \<Rightarrow> 'spec TraktItem list \<Rightarrow> world \<Rightarrow> error option \<times> world" where
  "RatingsAdd lib tc items w =
     (if SyncMode (config tc) = traktSyncModeDryRun then
        (None, w @ [Logged (LogInfo (''sync mode dry run would have added '' @ Itoa (int (length items)) @
                   '' trakt rating item(s)''))])
      else
        (case Marshal_TraktListBody lib (mapTraktItemsToTraktBody items) of
           Inl err \<Rightarrow> (Some (MarshalError err), w)
         | Inr body \<Rightarrow>
             (case doRequest lib tc
                     \<lparr>Method = MethodPost, BasePath = traktPathBaseAPI,
                      Endpoint = traktPathRatings,
                      Body = body, Headers = defaultApiHeaders tc\<rparr> w of
                (Inl err, w1) \<Rightarrow> (Some err, w1)
              | (Inr response, w1) \<Rightarrow>
                  (case readTraktResponse lib (resp_Body response) of
                     Inl err \<Rightarrow> (Some err, w1)
                   | Inr traktResponse \<Rightarrow> (None, w1 @ [Logged (LogInfo ''synced trakt ratings'')])))))"

definition RatingsRemove :: "('spec, 'resp) golib \<Rightarrow> TraktClient \<Rightarrow> 'spec TraktItem list \<Rightarrow> world \<Rightarrow> error option \<times> world" where
  "RatingsRemove lib tc items w =
     (if SyncMode (config tc) = traktSyncModeDryRun \<or> SyncMode (config tc) = traktSyncModeAddOnly then
        (None, w @ [Logged (LogInfo (''sync mode '' @ SyncMode (config tc) @ '' would have deleted '' @
                   Itoa (int (length items)) @ '' trakt rating item(s)''))])
      else
        (case Marshal_TraktListBody lib (mapTraktItemsToTraktBody items) of
           Inl err \<Rightarrow> (Some (MarshalError err), w)
         | Inr body \<Rightarrow>
             (case doRequest lib tc
                     \<lparr>Method = MethodPost, BasePath = traktPathBaseAPI,
                      Endpoint = traktPathRatingsRemove,
                      Body = body, Headers = defaultApiHeaders tc\<rparr> w of
                (Inl err, w1) \<Rightarrow> (Some err, w1)
              | (Inr response, w1) \<Rightarrow>
                  (case readTraktResponse lib (resp_Body response) of
                     Inl err \<Rightarrow> (Some err, w1)
                   | Inr traktResponse \<Rightarrow> (None, w1 @ [Logged (LogInfo ''synced trakt ratings'')])))))"

definition HistoryGet :: "('spec, 'resp) golib \<Rightarrow> TraktClient \<Rightarrow> string \<Rightarrow> string \<Rightarrow> world \<Rightarrow> (error + 'spec TraktItem list) \<times> world" where
  "HistoryGet lib tc itemType itemId w =
     (case doRequest lib tc
             \<lparr>Method = MethodGet, BasePath = traktPathBaseAPI,
              Endpoint = traktPathHistoryGet (itemType @ ''s'') itemId ''1000'',
              Body = NoBody, Headers = defaultApiHeaders tc\<rparr> w of
        (Inl err, w1) \<Rightarrow> (Inl err, w1)
      | (Inr response, w1) \<Rightarrow> (readTraktItems lib (resp_Body response), w1))"

definition HistoryAdd :: "('spec, 'resp) golib \<Rightarrow> TraktClient \<Rightarrow> 'spec TraktItem list \<Rightarrow> world \<Rightarrow> error option \<times> world" where
  "HistoryAdd lib tc items w =
     (if SyncMode (config tc) = traktSyncModeDryRun then
        (None, w @ [Logged (LogInfo (''sync mode dry run would have added '' @ Itoa (int (length items)) @
                   '' trakt history item(s)''))])
      else
        (case Marshal_TraktListBody lib (mapTraktItemsToTraktBody items) of
           Inl err \<Rightarrow> (Some (MarshalError err), w)
         | Inr body \<Rightarrow>
             (case doRequest lib tc
                     \<lparr>Method = MethodPost, BasePath = traktPathBaseAPI,
                      Endpoint = traktPathHistory,
                      Body = body, Headers = defaultApiHeaders tc\<rparr> w of
                (Inl err, w1) \<Rightarrow> (Some err, w1)
              | (Inr response, w1) \<Rightarrow>
                  (case readTraktResponse lib (resp_Body response) of
                     Inl err \<Rightarrow> (Some err, w1)
                   | Inr traktResponse \<Rightarrow> (None, w1 @ [Logged (LogInfo ''synced trakt history'')])))))"

definition HistoryRemove :: "('spec, 'resp) golib \<Rightarrow> TraktClient \<Rightarrow> 'spec TraktItem list \<Rightarrow> world \<Rightarrow> error option \<times> world" where
  "HistoryRemove lib tc items w =
     (if SyncMode (config tc) = traktSyncModeDryRun \<or> SyncMode (config tc) = traktSyncModeAddOnly then
        (None, w @ [Logged (LogInfo (''sync mode '' @ SyncMode (config tc) @ '' would have deleted '' @
                   Itoa (int (length items)) @ '' trakt history item(s)''))])
      else
        (case Marshal_TraktListBody lib (mapTraktItemsToTraktBody items) of
           Inl err \<Rightarrow> (Some (MarshalError err), w)
         | Inr body \<Rightarrow>
             (case doRequest lib tc
                     \<lparr>Method = MethodPost, BasePath = traktPathBaseAPI,
                      Endpoint = traktPathHistoryRemove,
                      Body = body, Headers = defaultApiHeaders tc\<rparr> w of
                (Inl err, w1) \<Rightarrow> (Some err, w1)
              | (Inr response, w1) \<Rightarrow>
                  (case readTraktResponse lib (resp_Body response) of
                     Inl err \<Rightarrow> (Some err, w1)
                   | Inr traktResponse \<Rightarrow> (None, w1 @ [Logged (LogInfo ''synced trakt history'')])))))"

section \<open>Authorising the application\<close>

text \<open>
  \<open>ActivateAuthorize\<close> returns its error and the client, whose \<open>config.username\<close> it sets.
  \<open>url.Values.Set\<close> stores the one value of a key.
\<close>

definition ActivateAuthorize :: "('spec, 'resp) golib \<Rightarrow> TraktClient \<Rightarrow> string \<Rightarrow> world \<Rightarrow> error option \<times> TraktClient \<times> world" where
  "ActivateAuthorize lib tc authenticityToken w =
     (let encodedData = Values_Encode lib
            [traktFormKeyAuthenticityToken \<mapsto> [authenticityToken],
             traktFormKeyCommit \<mapsto> [''Yes'']]
      in case doRequest lib tc
                \<lparr>Method = MethodPost, BasePath = traktPathBaseBrowser,
                 Endpoint = traktPathActivateAuthorize,
                 Body = encodedData,
                 Headers =
                   [traktHeaderKeyContentType \<mapsto> ''application/x-www-form-urlencoded'',
                    traktHeaderKeyContentLength \<mapsto> Itoa (int (length encodedData))]\<rparr> w of
           (Inl err, w1) \<Rightarrow> (Some err, tc, w1)
         | (Inr response, w1) \<Rightarrow>
             (case scrapeSelectionAttribute lib (resp_Body response) (clientNameTrakt lib)
                     ''#desktop-user-avatar'' ''href'' of
                Inl err \<Rightarrow> (Some (ScrapeError err), tc, w1)
              | Inr v \<Rightarrow>
                  (let hrefPieces = Split v (CHR ''/'')
                   in if length hrefPieces \<noteq> 3 then (Some ScrapeUsernameError, tc, w1)
                      else (None, tc\<lparr>config := (config tc)\<lparr>username := hrefPieces ! 2\<rparr>\<rparr>, w1))))"

section \<open>The concurrent list fetcher\<close>

text \<open>
  \<open>ListsGet\<close> starts a goroutine that launches one task per identifier, waits for the
  wait group and closes \<open>doneChan\<close>, while the caller loops over a \<open>select\<close> on the three
  channels. The goroutines and the channels are a state, and a run is a sequence of
  steps, each enabled or not in the state it meets:
  \<^item> \<open>Spawn\<close>: the launcher's loop takes the next identifier, \<open>waitGroup.Add(1)\<close>, \<open>go\<close>;
  \<^item> \<open>RunTask i\<close>: the \<open>i\<close>-th launched task that has not run yet runs: \<open>ListGet\<close>, then
    its send and the deferred \<open>waitGroup.Done()\<close>;
  \<^item> \<open>CloseDone\<close>: \<open>waitGroup.Wait()\<close> returns, the loop being over and the counter zero,
    and \<open>doneChan\<close> is closed;
  \<^item> \<open>RecvOut\<close>, \<open>RecvErr\<close>, \<open>RecvDone\<close>: the caller's \<open>select\<close> takes the case of
    \<open>outChan\<close>, \<open>errChan\<close> or \<open>doneChan\<close>, which it can when that channel has a value or
    is closed. When several cases can proceed Go chooses one of them at random, so a
    run may take any of them.
  \<open>outChan\<close> has room for every list, so a send to it never blocks; \<open>errChan\<close> has room
  for one error, and a task that finds it full stays blocked on its send and never
  reaches \<open>Done\<close>.
\<close>

record 'spec fetchState =
  toSpawn :: "TraktIds list"
  launched :: "TraktIds list"
  waitCount :: nat
  outChan :: "'spec TraktList list"
  errChan :: "error option"
  doneChan :: bool
  lists_acc :: "'spec TraktList list"
  trace :: world

datatype step = Spawn | RunTask nat | CloseDone | RecvOut | RecvErr | RecvDone

text \<open>The body of the task of identifier \<open>id\<close>.\<close>

definition fetchTask :: "('spec, 'resp) golib \<Rightarrow> TraktClient \<Rightarrow> TraktIds \<Rightarrow> 'spec fetchState \<Rightarrow> 'spec fetchState" where
  "fetchTask lib tc ident st =
     (case ListGet lib tc (Slug ident) (trace st) of
        (Inl err, w1) \<Rightarrow>
          if (case errors_As_ApiError err of
                Some apiError \<Rightarrow> err_StatusCode apiError = StatusNotFound
              | None \<Rightarrow> False)
          then st\<lparr>trace := w1 @ [Logged (LogDebug ''silencing not found error while fetching trakt lists'')],
                  waitCount := waitCount st - 1\<rparr>
          else (case errChan st of
                  None \<Rightarrow> st\<lparr>trace := w1, errChan := Some (FetchListsError err),
                              waitCount := waitCount st - 1\<rparr>
                | Some _ \<Rightarrow> st\<lparr>trace := w1\<rparr>)
      | (Inr list, w1) \<Rightarrow>
          st\<lparr>trace := w1, outChan := outChan st @ [list\<lparr>Ids := ident\<rparr>],
             waitCount := waitCount st - 1\<rparr>)"

text \<open>
  A run from a state: \<open>Some\<close> what the caller returns, with the trace at that moment;
  \<open>None\<close> when a step is not enabled or the steps end before the caller returns.
\<close>

fun ListsGetRun :: "('spec, 'resp) golib \<Rightarrow> TraktClient \<Rightarrow> step list \<Rightarrow> 'spec fetchState \<Rightarrow> ((error + 'spec TraktList list) \<times> world) option" where
  "ListsGetRun lib tc [] st = None"
| "ListsGetRun lib tc (Spawn # ss) st =
     (case toSpawn st of
        [] \<Rightarrow> None
      | ident # rest \<Rightarrow>
          ListsGetRun lib tc ss
            (st\<lparr>toSpawn := rest, launched := launched st @ [ident],
                waitCount := Suc (waitCount st)\<rparr>))"
| "ListsGetRun lib tc (RunTask i # ss) st =
     (if i < length (launched st) then
        ListsGetRun lib tc ss
          (fetchTask lib tc (launched st ! i)
             (st\<lparr>launched := take i (launched st) @ drop (Suc i) (launched st)\<rparr>))
      else None)"
| "ListsGetRun lib tc (CloseDone # ss) st =
     (if toSpawn st = [] \<and> waitCount st = 0 \<and> \<not> doneChan st then
        ListsGetRun lib tc ss (st\<lparr>doneChan := True\<rparr>)
      else None)"
| "ListsGetRun lib tc (RecvOut # ss) st =
     (case outChan st of
        [] \<Rightarrow> None
      | l # rest \<Rightarrow> ListsGetRun lib tc ss (st\<lparr>outChan := rest, lists_acc := lists_acc st @ [l]\<rparr>))"
| "ListsGetRun lib tc (RecvErr # ss) st =
     (case errChan st of
        None \<Rightarrow> None
      | Some err \<Rightarrow> Some (Inl err, trace st))"
| "ListsGetRun lib tc (RecvDone # ss) st =
     (if doneChan st then Some (Inr (lists_acc st), trace st) else None)"

text \<open>\<open>ListsGet\<close> under a schedule of its goroutines.\<close>

definition ListsGet :: "('spec, 'resp) golib \<Rightarrow> TraktClient \<Rightarrow> TraktIds list \<Rightarrow> step list \<Rightarrow> world \<Rightarrow> ((error + 'spec TraktList list) \<times> world) option" where
  "ListsGet lib tc ids sched w =
     ListsGetRun lib tc sched
       \<lparr>toSpawn = ids, launched = [], waitCount = 0, outChan = [], errChan = None,
        doneChan = False, lists_acc = [], trace = w\<rparr>"

section \<open>Vocabulary of the statements\<close>

text \<open>
  The request \<open>doRequest\<close> builds from its fields when \<open>http.NewRequest\<close> accepts them: a
  fresh request whose header holds every entry of \<open>Headers\<close>.
\<close>

definition builtRequest :: "requestFields \<Rightarrow> request" where
  "builtRequest rf =
     \<lparr>req_Method = Method rf, req_URL = BasePath rf @ Endpoint rf,
      req_Header = Headers rf, req_Body = Body rf\<rparr>"

text \<open>The statuses \<open>doRequest\<close> returns the response of.\<close>

definition successStatus :: "int \<Rightarrow> bool" where
  "successStatus code = (code = 200 \<or> code = 201 \<or> code = 204 \<or> code = 404)"

text \<open>
  The ten mutating operations and the five get operations as values, so that a
  statement can range over them; \<open>runMutation\<close> and \<open>runQuery\<close> call the operation.
\<close>

datatype 'spec mutation =
    WatchlistItemsAddOp "'spec TraktItem list"
  | WatchlistItemsRemoveOp "'spec TraktItem list"
  | ListItemsAddOp string "'spec TraktItem list"
  | ListItemsRemoveOp string "'spec TraktItem list"
  | ListAddOp string string
  | ListRemoveOp string
  | RatingsAddOp "'spec TraktItem list"
  | RatingsRemoveOp "'spec TraktItem list"
  | HistoryAddOp "'spec TraktItem list"
  | HistoryRemoveOp "'spec TraktItem list"

fun runMutation :: "('spec, 'resp) golib \<Rightarrow> TraktClient \<Rightarrow> 'spec mutation \<Rightarrow> world \<Rightarrow> error option \<times> world" where
  "runMutation lib tc (WatchlistItemsAddOp items) w = WatchlistItemsAdd lib tc items w"
| "runMutation lib tc (WatchlistItemsRemoveOp items) w = WatchlistItemsRemove lib tc items w"
| "runMutation lib tc (ListItemsAddOp listId items) w = ListItemsAdd lib tc listId items w"
| "runMutation lib tc (ListItemsRemoveOp listId items) w = ListItemsRemove lib tc listId items w"
| "runMutation lib tc (ListAddOp listId listName) w = ListAdd lib tc listId listName w"
| "runMutation lib tc (ListRemoveOp listId) w = ListRemove lib tc listId w"
| "runMutation lib tc (RatingsAddOp items) w = RatingsAdd lib tc items w"
| "runMutation lib tc (RatingsRemoveOp items) w = RatingsRemove lib tc items w"
| "runMutation lib tc (HistoryAddOp items) w = HistoryAdd lib tc items w"
| "runMutation lib tc (HistoryRemoveOp items) w = HistoryRemove lib tc items w"

fun isRemove :: "'spec mutation \<Rightarrow> bool" where
  "isRemove (WatchlistItemsRemoveOp items) = True"
| "isRemove (ListItemsRemoveOp listId items) = True"
| "isRemove (ListRemoveOp listId) = True"
| "isRemove (RatingsRemoveOp items) = True"
| "isRemove (HistoryRemoveOp items) = True"
| "isRemove _ = False"

text \<open>
  The spec's table of modes: a remove is skipped in the modes dry-run and add-only, an
  add in the mode dry-run.
\<close>

definition specSkips :: "string \<Rightarrow> 'spec mutation \<Rightarrow> bool" where
  "specSkips mode m =
     (if isRemove m then mode = ''dry-run'' \<or> mode = ''add-only'' else mode = ''dry-run'')"

datatype query =
    WatchlistGetOp
  | ListGetOp string
  | ListsMetadataGetOp
  | RatingsGetOp
  | HistoryGetOp string string

datatype 'spec queryResult =
    OneList "'spec TraktList"
  | ManyLists "'spec TraktList list"
  | Items "'spec TraktItem list"

fun runQuery :: "('spec, 'resp) golib \<Rightarrow> TraktClient \<Rightarrow> query \<Rightarrow> world \<Rightarrow> (error + 'spec queryResult) \<times> world" where
  "runQuery lib tc WatchlistGetOp w = apfst (map_sum id OneList) (WatchlistGet lib tc w)"
| "runQuery lib tc (ListGetOp listId) w = apfst (map_sum id OneList) (ListGet lib tc listId w)"
| "runQuery lib tc ListsMetadataGetOp w = apfst (map_sum id ManyLists) (ListsMetadataGet lib tc w)"
| "runQuery lib tc RatingsGetOp w = apfst (map_sum id Items) (RatingsGet lib tc w)"
| "runQuery lib tc (HistoryGetOp itemType itemId) w =
     apfst (map_sum id Items) (HistoryGet lib tc itemType itemId w)"

text \<open>
  Between the traces \<open>w\<close> and \<open>w'\<close> the client has sent one and the same request, at least
  \<open>lo\<close> and at most \<open>hi\<close> times, and no other.
\<close>

definition sendsBetween :: "nat \<Rightarrow> nat \<Rightarrow> world \<Rightarrow> world \<Rightarrow> bool" where
  "sendsBetween lo hi w w' =
     (\<exists>n r. lo \<le> n \<and> n \<le> hi \<and> requestsSent w' = requestsSent w @ replicate n r)"

text \<open>
  The library accepts every request and serialises every body; the servers behind the
  client never answer with status 429.
\<close>

definition libSucceeds :: "('spec, 'resp) golib \<Rightarrow> bool" where
  "libSucceeds lib =
     ((\<forall>method u. NewRequest_err lib method u = None) \<and>
      (\<forall>b. \<exists>s. Marshal_TraktListBody lib b = Inr s) \<and>
      (\<forall>b. \<exists>s. Marshal_TraktListAddBody lib b = Inr s))"

definition neverRateLimits :: "TraktClient \<Rightarrow> bool" where
  "neverRateLimits tc = (\<forall>w r. client tc w = Response r \<longrightarrow> StatusCode r \<noteq> 429)"

text \<open>
  The test by which \<open>ListsGet\<close> tells the not-found error from the others:
  \<open>errors.As(err, &apiError) && apiError.StatusCode == http.StatusNotFound\<close>.
\<close>

definition isNotFound :: "error \<Rightarrow> bool" where
  "isNotFound err =
     (case errors_As_ApiError err of
        Some apiError \<Rightarrow> err_StatusCode apiError = StatusNotFound
      | None \<Rightarrow> False)"

text \<open>The request fields \<open>ListGet\<close> and \<open>ActivateAuthorize\<close> hand to \<open>doRequest\<close>.\<close>

definition listGetFields :: "TraktClient \<Rightarrow> string \<Rightarrow> requestFields" where
  "listGetFields tc listId =
     \<lparr>Method = MethodGet, BasePath = traktPathBaseAPI,
      Endpoint = traktPathUserListItems (username (config tc)) listId,
      Body = NoBody, Headers = defaultApiHeaders tc\<rparr>"

definition activateAuthorizeFields :: "('spec, 'resp) golib \<Rightarrow> string \<Rightarrow> requestFields" where
  "activateAuthorizeFields lib authenticityToken =
     (let encodedData = Values_Encode lib
            [traktFormKeyAuthenticityToken \<mapsto> [authenticityToken],
             traktFormKeyCommit \<mapsto> [''Yes'']]
      in \<lparr>Method = MethodPost, BasePath = traktPathBaseBrowser,
          Endpoint = traktPathActivateAuthorize,
          Body = encodedData,
          Headers =
            [traktHeaderKeyContentType \<mapsto> ''application/x-www-form-urlencoded'',
             traktHeaderKeyContentLength \<mapsto> Itoa (int (length encodedData))]\<rparr>)"

text \<open>
  The pieces put together again with the separator between them (\<open>strings.Join\<close>), to
  say what \<open>Split\<close> computes.
\<close>

fun joinWith :: "char \<Rightarrow> string list \<Rightarrow> string" where
  "joinWith sep [] = []"
| "joinWith sep [p] = p"
| "joinWith sep (p # q # ps) = p @ sep # joinWith sep (q # ps)"

section \<open>Example inputs\<close>

text \<open>
  A library whose calls all succeed, a configuration in a given mode, and servers given
  by their answer to the \<open>n\<close>-th request the client has sent.
\<close>

definition exampleLib :: "(string, unit) golib" where
  "exampleLib =
     \<lparr>NewRequest_err = (\<lambda>m u. None),
      Values_Encode = (\<lambda>v. ''authenticity_token=t&commit=Yes''),
      Marshal_TraktListBody = (\<lambda>b. Inr ''{}''),
      Marshal_TraktListAddBody = (\<lambda>b. Inr ''{}''),
      Decode_TraktItems = (\<lambda>b. Inr []),
      Decode_TraktLists = (\<lambda>b. Inr []),
      Decode_TraktResponse = (\<lambda>b. Inr ()),
      Now_RFC1123 = (\<lambda>w. ''Sat, 31 Oct 2026 12:00:00 UTC''),
      scrapeSelectionAttribute = (\<lambda>body c sel attr. Inr body),
      clientNameTrakt = ''trakt''\<rparr>"

definition exampleConfig :: "string \<Rightarrow> TraktConfig" where
  "exampleConfig mode =
     \<lparr>accessToken = ''token'', ClientId = ''id'', ClientSecret = ''secret'',
      Email = ''bob@example.org'', Password = ''password'', username = ''bob'',
      SyncMode = mode\<rparr>"

definition serverOf :: "(nat \<Rightarrow> request \<Rightarrow> reply) \<Rightarrow> world \<Rightarrow> reply" where
  "serverOf f w =
     (case rev w of
        Sent r # _ \<Rightarrow> f (length (requestsSent w)) r
      | _ \<Rightarrow> TransportError ''no request'')"

definition answer :: "int \<Rightarrow> (string \<rightharpoonup> string list) \<Rightarrow> string \<Rightarrow> request \<Rightarrow> reply" where
  "answer code h body r = Response \<lparr>StatusCode = code, Header = h, resp_Body = body, Request = r\<rparr>"

definition exampleClient :: "(nat \<Rightarrow> request \<Rightarrow> reply) \<Rightarrow> string \<Rightarrow> TraktClient" where
  "exampleClient f mode = \<lparr>client = serverOf f, config = exampleConfig mode\<rparr>"

definition exampleFields :: requestFields where
  "exampleFields =
     \<lparr>Method = ''GET'', BasePath = ''https://api.trakt.tv'', Endpoint = ''/sync/ratings'',
      Body = [], Headers = [''trakt-api-version'' \<mapsto> ''2'']\<rparr>"

text \<open>
  A server that answers the first request with 429 and a \<open>Retry-After\<close> of 9223372037
  seconds, and every later request with 200.
\<close>

definition overflowServer :: "nat \<Rightarrow> request \<Rightarrow> reply" where
  "overflowServer n =
     (if n = 1 then answer 429 [''Retry-After'' \<mapsto> [''9223372037'']] []
      else answer 200 Map.empty ''[]'')"

text \<open>
  A server that answers the first request with 429 and a \<open>Retry-After\<close> of one second,
  and every later request with 200.
\<close>

definition rateLimitedOnce :: "nat \<Rightarrow> request \<Rightarrow> reply" where
  "rateLimitedOnce n =
     (if n = 1 then answer 429 [''Retry-After'' \<mapsto> [''1'']] []
      else answer 200 Map.empty ''{}'')"

text \<open>
  A server on which the list \<open>gone\<close> of the user has been deleted and every other
  list is empty, and one that cannot be reached.
\<close>

definition listsServer :: "nat \<Rightarrow> request \<Rightarrow> reply" where
  "listsServer n r =
     (if req_URL r = ''https://api.trakt.tv/users/bob/lists/gone/items''
      then answer 404 Map.empty [] r
      else answer 200 Map.empty ''[]'' r)"

definition unreachableServer :: "nat \<Rightarrow> request \<Rightarrow> reply" where
  "unreachableServer n r = TransportError ''dial tcp: connection refused''"

text \<open>A page whose avatar link is the body of the response, as \<open>exampleLib\<close> scrapes it.\<close>

definition profileServer :: "string \<Rightarrow> nat \<Rightarrow> request \<Rightarrow> reply" where
  "profileServer href n r = answer 200 Map.empty href r"

section \<open>Properties of the add-body mapping\<close>

lemma tags_distinct:
  "TraktItemTypeMovie \<noteq> TraktItemTypeShow"
  "TraktItemTypeMovie \<noteq> TraktItemTypeEpisode"
  "TraktItemTypeShow \<noteq> TraktItemTypeEpisode"
  by (simp_all add: TraktItemTypeMovie_def TraktItemTypeShow_def TraktItemTypeEpisode_def)

lemma mapTraktItemsLoop_closed:
  "mapTraktItemsLoop items res =
     \<lparr>Movies = Movies res @ map Movie (filter (\<lambda>i. Type i = TraktItemTypeMovie) items),
      Shows = Shows res @ map Show (filter (\<lambda>i. Type i = TraktItemTypeShow) items),
      Episodes = Episodes res @ map Episode (filter (\<lambda>i. Type i = TraktItemTypeEpisode) items)\<rparr>"
proof (induction items arbitrary: res)
  case Nil
  show ?case by simp
next
  case (Cons item items)
  show ?case
    by (simp add: Cons.IH mapTraktItem_def tags_distinct tags_distinct [symmetric])
qed

lemma mapTraktItemsToTraktBody_closed:
  "mapTraktItemsToTraktBody items =
     \<lparr>Movies = map Movie (filter (\<lambda>i. Type i = TraktItemTypeMovie) items),
      Shows = map Show (filter (\<lambda>i. Type i = TraktItemTypeShow) items),
      Episodes = map Episode (filter (\<lambda>i. Type i = TraktItemTypeEpisode) items)\<rparr>"
  by (simp add: mapTraktItemsToTraktBody_def mapTraktItemsLoop_closed)

lemma recognized_count:
  "length (filter (\<lambda>i. Type i = TraktItemTypeMovie) items) +
   length (filter (\<lambda>i. Type i = TraktItemTypeShow) items) +
   length (filter (\<lambda>i. Type i = TraktItemTypeEpisode) items) =
   length (filter recognizedType items)"
  by (induction items) (auto simp: recognizedType_def tags_distinct tags_distinct [symmetric])

lemma recognized_and:
  "(recognizedType x \<and> Type x = TraktItemTypeMovie) = (Type x = TraktItemTypeMovie)"
  "(recognizedType x \<and> Type x = TraktItemTypeShow) = (Type x = TraktItemTypeShow)"
  "(recognizedType x \<and> Type x = TraktItemTypeEpisode) = (Type x = TraktItemTypeEpisode)"
  by (auto simp: recognizedType_def)

lemma unrecognized_and:
  "(\<not> recognizedType x \<and> Type x = TraktItemTypeMovie) = False"
  "(\<not> recognizedType x \<and> Type x = TraktItemTypeShow) = False"
  "(\<not> recognizedType x \<and> Type x = TraktItemTypeEpisode) = False"
  by (auto simp: recognizedType_def)

text \<open>
  Claim C9. An item tagged as a movie goes through \<open>mapTraktItemsToTraktBody\<close> into exactly
  one Movie entry, the item's own \<open>Movie\<close> payload, and into no Show or Episode entry:
  alone, and at any place of any sequence, where it adds its one Movie entry between
  those of the items before and after it and nothing to the other two collections.
  The spec's Item is a tagged union, so the item with only a Movie populated is the
  item whose tag is the movie tag; the mapping reads the tag alone.
\<close>

theorem movie_item_maps_to_one_movie_entry:
  "Type item = TraktItemTypeMovie \<Longrightarrow>
     mapTraktItemsToTraktBody [item] = \<lparr>Movies = [Movie item], Shows = [], Episodes = []\<rparr> \<and>
     Movies (mapTraktItemsToTraktBody (xs @ item # ys)) =
       Movies (mapTraktItemsToTraktBody xs) @ Movie item # Movies (mapTraktItemsToTraktBody ys) \<and>
     Shows (mapTraktItemsToTraktBody (xs @ item # ys)) =
       Shows (mapTraktItemsToTraktBody xs) @ Shows (mapTraktItemsToTraktBody ys) \<and>
     Episodes (mapTraktItemsToTraktBody (xs @ item # ys)) =
       Episodes (mapTraktItemsToTraktBody xs) @ Episodes (mapTraktItemsToTraktBody ys)"
  by (simp add: mapTraktItemsToTraktBody_closed tags_distinct)

theorem movie_item_maps_to_one_movie_entry_witness:
  "Type \<lparr>Type = ''movie'', Movie = ''tt0111161'', Show = '''', Episode = ''''\<rparr> = TraktItemTypeMovie \<and>
   mapTraktItemsToTraktBody [\<lparr>Type = ''movie'', Movie = ''tt0111161'', Show = '''', Episode = ''''\<rparr>] =
     \<lparr>Movies = [''tt0111161''], Shows = [], Episodes = []\<rparr> \<and>
   Movies (mapTraktItemsToTraktBody
     [\<lparr>Type = ''show'', Movie = '''', Show = ''tt0903747'', Episode = ''''\<rparr>,
      \<lparr>Type = ''movie'', Movie = ''tt0111161'', Show = '''', Episode = ''''\<rparr>,
      \<lparr>Type = ''person'', Movie = '''', Show = '''', Episode = ''''\<rparr>]) = [''tt0111161''] \<and>
   Shows (mapTraktItemsToTraktBody
     [\<lparr>Type = ''show'', Movie = '''', Show = ''tt0903747'', Episode = ''''\<rparr>,
      \<lparr>Type = ''movie'', Movie = ''tt0111161'', Show = '''', Episode = ''''\<rparr>,
      \<lparr>Type = ''person'', Movie = '''', Show = '''', Episode = ''''\<rparr>]) = [''tt0903747'']"
  using movie_item_maps_to_one_movie_entry
    [of "\<lparr>Type = ''movie'', Movie = ''tt0111161'', Show = '''', Episode = ''''\<rparr>"
        "[\<lparr>Type = ''show'', Movie = '''', Show = ''tt0903747'', Episode = ''''\<rparr>]"
        "[\<lparr>Type = ''person'', Movie = '''', Show = '''', Episode = ''''\<rparr>]"]
  by (simp add: TraktItemTypeMovie_def TraktItemTypeShow_def TraktItemTypeEpisode_def
      mapTraktItemsToTraktBody_def mapTraktItem_def)

text \<open>
  Claim C10. \<open>mapTraktItemsToTraktBody\<close> drops every item whose tag is none of movie, show
  and episode: the body of a sequence is the body of its recognized items, items of
  another tag put anywhere into a sequence change nothing, and the three collections
  together hold as many entries as the sequence has recognized items. The mapping has
  no error result.
\<close>

theorem unrecognized_items_are_dropped:
  "mapTraktItemsToTraktBody items = mapTraktItemsToTraktBody (filter recognizedType items) \<and>
   mapTraktItemsToTraktBody (xs @ filter (\<lambda>i. \<not> recognizedType i) items @ ys) =
     mapTraktItemsToTraktBody (xs @ ys) \<and>
   length (Movies (mapTraktItemsToTraktBody items)) +
   length (Shows (mapTraktItemsToTraktBody items)) +
   length (Episodes (mapTraktItemsToTraktBody items)) = length (filter recognizedType items)"
  by (simp add: mapTraktItemsToTraktBody_closed recognized_and unrecognized_and recognized_count)


section \<open>Properties of the request engine\<close>

lemmas status_defs = StatusOK_def StatusCreated_def StatusNoContent_def StatusNotFound_def
  traktStatusCodeEnhanceYourCalm_def StatusTooManyRequests_def

lemma doRequestLoop_transport:
  assumes "retries < 5" and "client tc (w @ [Sent request]) = TransportError err"
  shows "doRequestLoop tc request retries w =
           (Inl (SendRequestError (req_Method request) (req_URL request) err), w @ [Sent request])"
  using assms by (simp add: doRequestLoop.simps [of tc request retries w] Do_def)

lemma doRequestLoop_success:
  assumes "retries < 5" and "client tc (w @ [Sent request]) = Response r"
    and "StatusCode r = 200 \<or> StatusCode r = 201 \<or> StatusCode r = 204 \<or> StatusCode r = 404"
  shows "doRequestLoop tc request retries w = (Inr r, w @ [Sent request])"
  using assms by (auto simp add: doRequestLoop.simps [of tc request retries w] Do_def status_defs)

lemma doRequestLoop_calm:
  assumes "retries < 5" and "client tc (w @ [Sent request]) = Response r"
    and "StatusCode r = 420"
  shows "doRequestLoop tc request retries w =
           (Inl (ApiErr
              \<lparr>httpMethod = req_Method (Request r), url = req_URL (Request r),
               err_StatusCode = 420,
               details = ''trakt account limit exceeded, more info here: https://github.com/trakt/api-help/discussions/350''\<rparr>),
            w @ [Sent request])"
  using assms by (simp add: doRequestLoop.simps [of tc request retries w] Do_def status_defs)

lemma doRequestLoop_retry_after_malformed:
  assumes "retries < 5" and "client tc (w @ [Sent request]) = Response r"
    and "StatusCode r = 429" and "Atoi (Header_Get (Header r) ''Retry-After'') = None"
  shows "doRequestLoop tc request retries w =
           (Inl (RetryAfterParseError ''Retry-After'' (Header_Get (Header r) ''Retry-After'')),
            w @ [Sent request])"
  using assms
  by (simp add: doRequestLoop.simps [of tc request retries w] Do_def status_defs
      traktHeaderKeyRetryAfter_def)

lemma doRequestLoop_rate_limited:
  assumes "retries < 5" and "client tc (w @ [Sent request]) = Response r"
    and "StatusCode r = 429" and "Atoi (Header_Get (Header r) ''Retry-After'') = Some n"
  shows "doRequestLoop tc request retries w =
           doRequestLoop tc request (Suc retries)
             (w @ [Sent request,
                   Logged (WarnRateLimit (word_of_int n * Second) (req_Method (Request r))
                     (req_URL (Request r))),
                   Slept (word_of_int n * Second)])"
  using assms
  by (simp add: doRequestLoop.simps [of tc request retries w] Do_def status_defs
      traktHeaderKeyRetryAfter_def Let_def)

lemma doRequestLoop_unexpected:
  assumes "retries < 5" and "client tc (w @ [Sent request]) = Response r"
    and "StatusCode r \<noteq> 200" "StatusCode r \<noteq> 201" "StatusCode r \<noteq> 204" "StatusCode r \<noteq> 404"
      "StatusCode r \<noteq> 420" "StatusCode r \<noteq> 429"
  shows "doRequestLoop tc request retries w =
           (Inl (ApiErr
              \<lparr>httpMethod = req_Method (Request r), url = req_URL (Request r),
               err_StatusCode = StatusCode r,
               details = ''unexpected status code '' @ Itoa (StatusCode r)\<rparr>),
            w @ [Sent request])"
  using assms by (simp add: doRequestLoop.simps [of tc request retries w] Do_def status_defs)

lemma doRequestLoop_exhausted:
  assumes "5 \<le> retries"
  shows "doRequestLoop tc request retries w =
           (Inl (MaxRetriesError (req_Method request) (req_URL request)), w)"
  using assms by (simp add: doRequestLoop.simps [of tc request retries w])

lemma doRequest_loop:
  assumes "NewRequest_err lib (Method rf) (BasePath rf @ Endpoint rf) = None"
  shows "doRequest lib tc rf w = doRequestLoop tc (builtRequest rf) 0 w"
  using assms by (simp add: doRequest_def NewRequest_def builtRequest_def ReusableReader_def)

lemma doRequest_refused:
  assumes "NewRequest_err lib (Method rf) (BasePath rf @ Endpoint rf) = Some err"
  shows "doRequest lib tc rf w =
           (Inl (CreateRequestError (Method rf) (BasePath rf @ Endpoint rf) err), w)"
  using assms by (simp add: doRequest_def NewRequest_def)

lemma requestsSent_simps [simp]:
  "requestsSent [] = []"
  "requestsSent (Sent r # w) = r # requestsSent w"
  "requestsSent (Slept d # w) = requestsSent w"
  "requestsSent (Logged l # w) = requestsSent w"
  "requestsSent (w @ v) = requestsSent w @ requestsSent v"
  by (simp_all add: requestsSent_def)

text \<open>
  Claim C6. Whatever the attempt (\<open>retries < 5\<close>) and whatever happened before (\<open>w\<close>), when
  the client answers the request with a response \<open>r\<close>: a status of 200, 201, 204 or 404
  makes the loop of \<open>doRequest\<close> return \<open>r\<close> itself; a status that is none of these, nor
  420, nor 429, makes it return an \<open>ApiError\<close> that carries the method and the URL of the
  request of the response, the status code and the message "unexpected status code"
  followed by the code; in both cases nothing happens after the one send. \<open>doRequest\<close>
  is this loop entered at attempt 0 with the request built from its fields.
\<close>

theorem response_classification:
  assumes "retries < 5" and "client tc (w @ [Sent request]) = Response r"
  shows "(successStatus (StatusCode r) \<longrightarrow>
            doRequestLoop tc request retries w = (Inr r, w @ [Sent request])) \<and>
         (\<not> successStatus (StatusCode r) \<and> StatusCode r \<noteq> 420 \<and> StatusCode r \<noteq> 429 \<longrightarrow>
            doRequestLoop tc request retries w =
              (Inl (ApiErr
                 \<lparr>httpMethod = req_Method (Request r), url = req_URL (Request r),
                  err_StatusCode = StatusCode r,
                  details = ''unexpected status code '' @ Itoa (StatusCode r)\<rparr>),
               w @ [Sent request])) \<and>
         (NewRequest_err lib (Method rf) (BasePath rf @ Endpoint rf) = None \<longrightarrow>
            doRequest lib tc rf w = doRequestLoop tc (builtRequest rf) 0 w)"
  using assms
  by (auto simp: successStatus_def doRequestLoop_success doRequestLoop_unexpected doRequest_loop)

lemmas example_defs = exampleLib_def exampleConfig_def exampleClient_def exampleFields_def
  serverOf_def answer_def builtRequest_def

theorem response_classification_witness:
  "(0::nat) < 5 \<and>
   client (exampleClient (\<lambda>n. answer 404 Map.empty ''[]'') ''full'') ([] @ [Sent (builtRequest exampleFields)]) =
     answer 404 Map.empty ''[]'' (builtRequest exampleFields) \<and>
   doRequest exampleLib (exampleClient (\<lambda>n. answer 404 Map.empty ''[]'') ''full'') exampleFields [] =
     (Inr \<lparr>StatusCode = 404, Header = Map.empty, resp_Body = ''[]'', Request = builtRequest exampleFields\<rparr>,
      [Sent (builtRequest exampleFields)])"
  using response_classification
    [of 0 "exampleClient (\<lambda>n. answer 404 Map.empty ''[]'') ''full''" "[]" "builtRequest exampleFields"
        "\<lparr>StatusCode = 404, Header = Map.empty, resp_Body = ''[]'', Request = builtRequest exampleFields\<rparr>"
        exampleLib exampleFields]
  by (simp add: example_defs successStatus_def)

text \<open>
  Claim C3. Whatever the attempt and whatever happened before, a response of status 420
  makes the loop of \<open>doRequest\<close> return the account-limit \<open>ApiError\<close> with no effect after
  the one send: no sleep and no second request. When the response answers the first
  request of \<open>doRequest\<close>, the call returns that error and has sent exactly one request.
\<close>

theorem account_limit_never_retried:
  assumes "retries < 5" and "client tc (w @ [Sent request]) = Response r"
    and "StatusCode r = traktStatusCodeEnhanceYourCalm"
  shows "doRequestLoop tc request retries w =
           (Inl (ApiErr
              \<lparr>httpMethod = req_Method (Request r), url = req_URL (Request r),
               err_StatusCode = 420,
               details = ''trakt account limit exceeded, more info here: https://github.com/trakt/api-help/discussions/350''\<rparr>),
            w @ [Sent request]) \<and>
         (NewRequest_err lib (Method rf) (BasePath rf @ Endpoint rf) = None \<and>
          request = builtRequest rf \<longrightarrow>
            doRequest lib tc rf w = doRequestLoop tc request retries w \<and>
            requestsSent (snd (doRequest lib tc rf w)) = requestsSent w @ [builtRequest rf])"
proof -
  have code: "StatusCode r = 420"
    using assms(3) by (simp add: traktStatusCodeEnhanceYourCalm_def)
  note here = doRequestLoop_calm [OF assms(1) assms(2) code]
  have first: "request = builtRequest rf \<Longrightarrow>
      doRequestLoop tc (builtRequest rf) 0 w = doRequestLoop tc request retries w"
    using doRequestLoop_calm [of 0 tc w request r] assms(2) code here by simp
  show ?thesis
    using here first by (auto simp: doRequest_loop)
qed

theorem account_limit_never_retried_witness:
  "(0::nat) < 5 \<and>
   client (exampleClient (\<lambda>n. answer 420 Map.empty []) ''full'') ([] @ [Sent (builtRequest exampleFields)]) =
     answer 420 Map.empty [] (builtRequest exampleFields) \<and>
   doRequest exampleLib (exampleClient (\<lambda>n. answer 420 Map.empty []) ''full'') exampleFields [] =
     (Inl (ApiErr
        \<lparr>httpMethod = ''GET'', url = ''https://api.trakt.tv/sync/ratings'', err_StatusCode = 420,
         details = ''trakt account limit exceeded, more info here: https://github.com/trakt/api-help/discussions/350''\<rparr>),
      [Sent (builtRequest exampleFields)])"
  using account_limit_never_retried
    [of 0 "exampleClient (\<lambda>n. answer 420 Map.empty []) ''full''" "[]" "builtRequest exampleFields"
        "\<lparr>StatusCode = 420, Header = Map.empty, resp_Body = [], Request = builtRequest exampleFields\<rparr>"
        exampleLib exampleFields]
  by (simp add: example_defs traktStatusCodeEnhanceYourCalm_def doRequest_loop [unfolded builtRequest_def])

lemma Atoi_empty: "Atoi [] = None"
  by (simp add: Atoi_def)

text \<open>
  Claim C8. Whatever the attempt and whatever happened before, a response of status 429
  whose \<open>Retry-After\<close> value \<open>Atoi\<close> does not parse makes the loop of \<open>doRequest\<close> return at
  once the parse error that names the header, with no sleep and no further request
  after the one send; so does \<open>doRequest\<close> when the response answers its first request.
  The value of an absent header is the empty string, which does not parse.
\<close>

theorem malformed_retry_after_fails:
  assumes "retries < 5" and "client tc (w @ [Sent request]) = Response r"
    and "StatusCode r = StatusTooManyRequests"
    and "Atoi (Header_Get (Header r) traktHeaderKeyRetryAfter) = None"
  shows "doRequestLoop tc request retries w =
           (Inl (RetryAfterParseError traktHeaderKeyRetryAfter
                   (Header_Get (Header r) traktHeaderKeyRetryAfter)),
            w @ [Sent request]) \<and>
         (NewRequest_err lib (Method rf) (BasePath rf @ Endpoint rf) = None \<and>
          request = builtRequest rf \<longrightarrow>
            doRequest lib tc rf w = doRequestLoop tc request retries w) \<and>
         Atoi (Header_Get Map.empty traktHeaderKeyRetryAfter) = None"
proof -
  have code: "StatusCode r = 429"
    using assms(3) by (simp add: StatusTooManyRequests_def)
  have bad: "Atoi (Header_Get (Header r) ''Retry-After'') = None"
    using assms(4) by (simp add: traktHeaderKeyRetryAfter_def)
  note here = doRequestLoop_retry_after_malformed [OF assms(1) assms(2) code bad]
  have first: "request = builtRequest rf \<Longrightarrow>
      doRequestLoop tc (builtRequest rf) 0 w = doRequestLoop tc request retries w"
    using doRequestLoop_retry_after_malformed [of 0 tc w request r] assms(2) code bad here
    by simp
  have absent: "Atoi (Header_Get Map.empty traktHeaderKeyRetryAfter) = None"
    by (simp add: Header_Get_def Atoi_empty)
  show ?thesis
    using here first absent by (auto simp: doRequest_loop traktHeaderKeyRetryAfter_def)
qed

theorem malformed_retry_after_fails_witness:
  "(0::nat) < 5 \<and>
   client (exampleClient (\<lambda>n. answer 429 [''Retry-After'' \<mapsto> [''soon'']] []) ''full'')
     ([] @ [Sent (builtRequest exampleFields)]) =
     answer 429 [''Retry-After'' \<mapsto> [''soon'']] [] (builtRequest exampleFields) \<and>
   Atoi (Header_Get [''Retry-After'' \<mapsto> [''soon'']] traktHeaderKeyRetryAfter) = None \<and>
   doRequest exampleLib (exampleClient (\<lambda>n. answer 429 [''Retry-After'' \<mapsto> [''soon'']] []) ''full'')
     exampleFields [] =
     (Inl (RetryAfterParseError ''Retry-After'' ''soon''), [Sent (builtRequest exampleFields)])"
  using malformed_retry_after_fails
    [of 0 "exampleClient (\<lambda>n. answer 429 [''Retry-After'' \<mapsto> [''soon'']] []) ''full''" "[]"
        "builtRequest exampleFields"
        "\<lparr>StatusCode = 429, Header = [''Retry-After'' \<mapsto> [''soon'']], resp_Body = [],
          Request = builtRequest exampleFields\<rparr>"
        exampleLib exampleFields]
  by (simp add: example_defs StatusTooManyRequests_def traktHeaderKeyRetryAfter_def Header_Get_def
      Atoi_def isDigit_def)

subsection \<open>Rate limiting\<close>

lemma sint_word_of_int_64:
  assumes "- (2 ^ 63) \<le> m" and "m < 2 ^ 63"
  shows "sint (word_of_int m :: 64 word) = m"
  using assms by (simp add: sint_sbintrunc' signed_take_bit_int_eq_self)

lemma pauseOf_in_range:
  assumes "0 \<le> n" and "n * 1000000000 < 2 ^ 63"
  shows "pauseOf (word_of_int n * Second) = n * 1000000000"
proof -
  have eq: "word_of_int n * Second = (word_of_int (n * 1000000000) :: 64 word)"
    by (simp add: Second_def)
  have "- (2 ^ 63) \<le> n * 1000000000"
    using assms(1) by (simp add: order_trans [of "- (2 ^ 63)" 0])
  then have "sint (word_of_int (n * 1000000000) :: 64 word) = n * 1000000000"
    using assms(2) by (rule sint_word_of_int_64)
  then show ?thesis
    using assms(1) by (simp only: eq pauseOf_def)
qed

lemma doRequestLoop_sends:
  "\<exists>n. n \<le> 5 - retries \<and> (retries < 5 \<longrightarrow> 1 \<le> n) \<and>
       requestsSent (snd (doRequestLoop tc request retries w)) =
         requestsSent w @ replicate n request"
proof (induction "5 - retries" arbitrary: retries w)
  case 0
  then have "5 \<le> retries" by simp
  then show ?case
    by (simp add: doRequestLoop_exhausted)
next
  case (Suc d)
  then have lt: "retries < 5" and d: "d = 5 - Suc retries" by simp_all
  let ?one = "requestsSent w @ replicate 1 request"
  show ?case
  proof (cases "client tc (w @ [Sent request])")
    case (TransportError err)
    then have "requestsSent (snd (doRequestLoop tc request retries w)) = ?one"
      using lt by (simp add: doRequestLoop_transport)
    with lt show ?thesis by (intro exI [of _ 1]) simp
  next
    case (Response r)
    consider (ok) "StatusCode r = 200 \<or> StatusCode r = 201 \<or> StatusCode r = 204 \<or> StatusCode r = 404"
      | (calm) "StatusCode r = 420"
      | (bad) "StatusCode r = 429" "Atoi (Header_Get (Header r) ''Retry-After'') = None"
      | (wait) k where "StatusCode r = 429" "Atoi (Header_Get (Header r) ''Retry-After'') = Some k"
      | (other) "StatusCode r \<noteq> 200" "StatusCode r \<noteq> 201" "StatusCode r \<noteq> 204"
          "StatusCode r \<noteq> 404" "StatusCode r \<noteq> 420" "StatusCode r \<noteq> 429"
      by (cases "Atoi (Header_Get (Header r) ''Retry-After'')") auto
    then show ?thesis
    proof cases
      case ok
      then have "requestsSent (snd (doRequestLoop tc request retries w)) = ?one"
        using lt Response by (simp add: doRequestLoop_success)
      with lt show ?thesis by (intro exI [of _ 1]) simp
    next
      case calm
      then have "requestsSent (snd (doRequestLoop tc request retries w)) = ?one"
        using lt Response by (simp add: doRequestLoop_calm)
      with lt show ?thesis by (intro exI [of _ 1]) simp
    next
      case bad
      then have "requestsSent (snd (doRequestLoop tc request retries w)) = ?one"
        using lt Response by (simp add: doRequestLoop_retry_after_malformed)
      with lt show ?thesis by (intro exI [of _ 1]) simp
    next
      case other
      then have "requestsSent (snd (doRequestLoop tc request retries w)) = ?one"
        using lt Response by (simp add: doRequestLoop_unexpected)
      with lt show ?thesis by (intro exI [of _ 1]) simp
    next
      case wait
      let ?w = "w @ [Sent request,
                   Logged (WarnRateLimit (word_of_int k * Second) (req_Method (Request r))
                     (req_URL (Request r))),
                   Slept (word_of_int k * Second)]"
      have step: "doRequestLoop tc request retries w = doRequestLoop tc request (Suc retries) ?w"
        using lt Response wait by (rule doRequestLoop_rate_limited)
      from Suc.hyps(1) [OF d, of ?w] obtain n where
        n: "n \<le> 5 - Suc retries"
        "requestsSent (snd (doRequestLoop tc request (Suc retries) ?w)) =
           requestsSent ?w @ replicate n request"
        by blast
      have "requestsSent (snd (doRequestLoop tc request retries w)) =
              requestsSent w @ replicate (Suc n) request"
        using n(2) step by simp
      moreover have "Suc n \<le> 5 - retries"
        using n(1) lt by simp
      ultimately show ?thesis
        by (intro exI [of _ "Suc n"]) simp
    qed
  qed
qed

lemma doRequestLoop_never_rate_limited:
  assumes "retries < 5"
    and "\<And>r. client tc (w @ [Sent request]) = Response r \<Longrightarrow> StatusCode r \<noteq> 429"
  shows "requestsSent (snd (doRequestLoop tc request retries w)) = requestsSent w @ [request]"
proof (cases "client tc (w @ [Sent request])")
  case (TransportError err)
  then show ?thesis
    using assms(1) by (simp add: doRequestLoop_transport)
next
  case (Response r)
  then have "StatusCode r \<noteq> 429"
    by (rule assms(2))
  then show ?thesis
    using assms(1) Response
    by (simp add: doRequestLoop.simps [of tc request retries w] Do_def status_defs)
qed

lemma doRequestLoop_always_rate_limited:
  assumes "\<And>w'. \<exists>r k. client tc w' = Response r \<and> StatusCode r = 429 \<and>
             Atoi (Header_Get (Header r) ''Retry-After'') = Some k"
  shows "fst (doRequestLoop tc request retries w) =
           Inl (MaxRetriesError (req_Method request) (req_URL request)) \<and>
         requestsSent (snd (doRequestLoop tc request retries w)) =
           requestsSent w @ replicate (5 - retries) request"
proof (induction "5 - retries" arbitrary: retries w)
  case 0
  then have "5 \<le> retries" by simp
  then show ?case
    by (simp add: doRequestLoop_exhausted)
next
  case (Suc d)
  then have lt: "retries < 5" and d: "d = 5 - Suc retries" by simp_all
  from assms [of "w @ [Sent request]"] obtain r k where
    r: "client tc (w @ [Sent request]) = Response r" "StatusCode r = 429"
      "Atoi (Header_Get (Header r) ''Retry-After'') = Some k"
    by blast
  let ?w = "w @ [Sent request,
               Logged (WarnRateLimit (word_of_int k * Second) (req_Method (Request r))
                 (req_URL (Request r))),
               Slept (word_of_int k * Second)]"
  have step: "doRequestLoop tc request retries w = doRequestLoop tc request (Suc retries) ?w"
    using lt r by (rule doRequestLoop_rate_limited)
  have "replicate (5 - retries) request = request # replicate (5 - Suc retries) request"
    using lt by (simp add: Suc_diff_Suc flip: replicate_Suc)
  then show ?case
    using Suc.hyps(1) [OF d, of ?w] step by simp
qed

text \<open>
  Claim C1, at the input where the code leaves it. The first request is answered with
  429 and \<open>Retry-After: 9223372037\<close>, which \<open>Atoi\<close> parses; \<open>time.Duration(retryAfter) *
  time.Second\<close> overflows the 64 bits of a duration to a negative number of nanoseconds,
  \<open>time.Sleep\<close> of it returns at once, and \<open>doRequest\<close> resends the request without having
  waited the 9223372037 seconds. For a value whose nanoseconds fit a duration the loop
  does wait that long before it resends the same request
  (\<open>doRequestLoop_rate_limited\<close>, \<open>pauseOf_in_range\<close>), it never sends more than five
  requests (\<open>doRequestLoop_sends\<close>), and five rate-limited answers in a row end in the
  max-retries error (\<open>doRequestLoop_always_rate_limited\<close>).
\<close>

theorem retry_after_overflow_skips_the_wait:
  "Atoi ''9223372037'' = Some 9223372037 \<and>
   doRequest exampleLib (exampleClient overflowServer ''full'') exampleFields [] =
     (Inr \<lparr>StatusCode = 200, Header = Map.empty, resp_Body = ''[]'',
           Request = builtRequest exampleFields\<rparr>,
      [Sent (builtRequest exampleFields),
       Logged (WarnRateLimit (word_of_int 9223372037 * Second) ''GET''
                 ''https://api.trakt.tv/sync/ratings''),
       Slept (word_of_int 9223372037 * Second),
       Sent (builtRequest exampleFields)]) \<and>
   sint (word_of_int 9223372037 * Second :: 64 word) = - 9223372036709551616 \<and>
   pauseOf (word_of_int 9223372037 * Second) = 0"
proof -
  let ?tc = "exampleClient overflowServer ''full''"
  let ?req = "builtRequest exampleFields"
  let ?r1 = "\<lparr>StatusCode = 429, Header = [''Retry-After'' \<mapsto> [''9223372037'']], resp_Body = [],
              Request = ?req\<rparr>"
  let ?r2 = "\<lparr>StatusCode = 200, Header = Map.empty, resp_Body = ''[]'', Request = ?req\<rparr>"
  let ?d = "word_of_int 9223372037 * Second :: 64 word"
  let ?w = "[] @ [Sent ?req, Logged (WarnRateLimit ?d (req_Method (Request ?r1)) (req_URL (Request ?r1))),
             Slept ?d]"
  have parse: "Atoi ''9223372037'' = Some 9223372037"
    by (simp add: Atoi_def isDigit_def digitVal_def)
  have first: "client ?tc ([] @ [Sent ?req]) = Response ?r1"
    by (simp add: exampleClient_def serverOf_def overflowServer_def answer_def)
  have second: "client ?tc (?w @ [Sent ?req]) = Response ?r2"
    by (simp add: exampleClient_def serverOf_def overflowServer_def answer_def)
  have "doRequest exampleLib ?tc exampleFields [] = doRequestLoop ?tc ?req 0 []"
    by (rule doRequest_loop) (simp add: exampleLib_def)
  also have "\<dots> = doRequestLoop ?tc ?req (Suc 0) ?w"
    by (rule doRequestLoop_rate_limited [OF _ first]) (simp_all add: Header_Get_def parse)
  also have "\<dots> = (Inr ?r2, ?w @ [Sent ?req])"
    by (rule doRequestLoop_success [OF _ second]) simp_all
  finally have run: "doRequest exampleLib ?tc exampleFields [] = (Inr ?r2, ?w @ [Sent ?req])" .
  have neg: "sint ?d = - 9223372036709551616"
    by (simp add: Second_def)
  then have "pauseOf ?d = 0"
    by (simp only: pauseOf_def)
  with parse run neg show ?thesis
    by (simp add: builtRequest_def exampleFields_def)
qed

section \<open>Properties of the sync operations\<close>

lemma sendsBetween_log [simp]:
  "sendsBetween lo hi w (w' @ [Logged l]) = sendsBetween lo hi w w'"
  by (simp add: sendsBetween_def)

lemma sendsBetween_refl [simp]:
  "sendsBetween lo hi w w = (lo = 0)"
  by (auto simp: sendsBetween_def)

lemma doRequest_sends:
  assumes "doRequest lib tc rf w = (res, w1)"
    and "NewRequest_err lib (Method rf) (BasePath rf @ Endpoint rf) = None"
  shows "sendsBetween 1 5 w w1"
proof -
  from doRequestLoop_sends [of 0 tc "builtRequest rf" w] obtain n where
    "n \<le> 5" "1 \<le> n"
    "requestsSent (snd (doRequestLoop tc (builtRequest rf) 0 w)) =
       requestsSent w @ replicate n (builtRequest rf)"
    by auto
  moreover have "snd (doRequestLoop tc (builtRequest rf) 0 w) = w1"
    using assms by (simp add: doRequest_loop)
  ultimately show ?thesis
    unfolding sendsBetween_def by blast
qed

lemma doRequest_sends_once:
  assumes "doRequest lib tc rf w = (res, w1)"
    and "NewRequest_err lib (Method rf) (BasePath rf @ Endpoint rf) = None"
    and "\<And>w' r. client tc w' = Response r \<Longrightarrow> StatusCode r \<noteq> 429"
  shows "sendsBetween 1 1 w w1"
proof -
  have "requestsSent (snd (doRequestLoop tc (builtRequest rf) 0 w)) =
          requestsSent w @ [builtRequest rf]"
    by (rule doRequestLoop_never_rate_limited) (simp_all add: assms(3))
  moreover have "snd (doRequestLoop tc (builtRequest rf) 0 w) = w1"
    using assms by (simp add: doRequest_loop)
  ultimately have "requestsSent w1 = requestsSent w @ replicate 1 (builtRequest rf)"
    by simp
  then show ?thesis
    unfolding sendsBetween_def by blast
qed

lemmas mode_defs = traktSyncModeDryRun_def traktSyncModeAddOnly_def traktSyncModeFull_def

lemmas mutation_defs = WatchlistItemsAdd_def WatchlistItemsRemove_def ListItemsAdd_def
  ListItemsRemove_def ListAdd_def ListRemove_def RatingsAdd_def RatingsRemove_def
  HistoryAdd_def HistoryRemove_def

lemmas query_defs = WatchlistGet_def ListGet_def ListsMetadataGet_def RatingsGet_def
  HistoryGet_def

lemma mutation_skipped:
  assumes "specSkips (SyncMode (config tc)) m"
  shows "fst (runMutation lib tc m w) = None \<and>
         requestsSent (snd (runMutation lib tc m w)) = requestsSent w"
  using assms by (cases m) (auto simp: specSkips_def mutation_defs mode_defs)

lemma mutation_executed:
  assumes "\<not> specSkips (SyncMode (config tc)) m"
    and "\<And>method u. NewRequest_err lib method u = None"
    and "\<And>b. \<exists>s. Marshal_TraktListBody lib b = Inr s"
    and "\<And>b. \<exists>s. Marshal_TraktListAddBody lib b = Inr s"
  shows "sendsBetween 1 5 w (snd (runMutation lib tc m w))"
proof -
  have intro: "sendsBetween (Suc 0) 5 w w1" if "doRequest lib tc rf w = (res, w1)" for rf res w1
    using doRequest_sends [OF that assms(2)] by simp
  have s: "Marshal_TraktListBody lib b \<noteq> Inl e" for b e
    using assms(3) [of b] by auto
  have t: "Marshal_TraktListAddBody lib b \<noteq> Inl e" for b e
    using assms(4) [of b] by auto
  show ?thesis
    using assms(1)
    by (cases m)
      (auto simp: specSkips_def mutation_defs mode_defs s t split: sum.splits prod.splits
        intro: intro)
qed


lemma mutation_executed_once:
  assumes "\<not> specSkips (SyncMode (config tc)) m"
    and "\<And>method u. NewRequest_err lib method u = None"
    and "\<And>b. \<exists>s. Marshal_TraktListBody lib b = Inr s"
    and "\<And>b. \<exists>s. Marshal_TraktListAddBody lib b = Inr s"
    and "\<And>w' r. client tc w' = Response r \<Longrightarrow> StatusCode r \<noteq> 429"
  shows "sendsBetween 1 1 w (snd (runMutation lib tc m w))"
proof -
  have intro: "sendsBetween (Suc 0) (Suc 0) w w1" if "doRequest lib tc rf w = (res, w1)" for rf res w1
    using doRequest_sends_once [OF that assms(2) assms(5)] by simp
  have s: "Marshal_TraktListBody lib b \<noteq> Inl e" for b e
    using assms(3) [of b] by auto
  have t: "Marshal_TraktListAddBody lib b \<noteq> Inl e" for b e
    using assms(4) [of b] by auto
  show ?thesis
    using assms(1)
    by (cases m)
      (auto simp: specSkips_def mutation_defs mode_defs s t split: sum.splits prod.splits
        intro: intro)
qed

lemma query_executed:
  assumes "\<And>method u. NewRequest_err lib method u = None"
  shows "sendsBetween 1 5 w (snd (runQuery lib tc q w))"
proof -
  have intro: "sendsBetween (Suc 0) 5 w w1" if "doRequest lib tc rf w = (res, w1)" for rf res w1
    using doRequest_sends [OF that assms] by simp
  show ?thesis
    by (cases q) (auto simp: query_defs split: sum.splits prod.splits if_splits intro: intro)
qed

lemma query_executed_once:
  assumes "\<And>method u. NewRequest_err lib method u = None"
    and "\<And>w' r. client tc w' = Response r \<Longrightarrow> StatusCode r \<noteq> 429"
  shows "sendsBetween 1 1 w (snd (runQuery lib tc q w))"
proof -
  have intro: "sendsBetween (Suc 0) (Suc 0) w w1" if "doRequest lib tc rf w = (res, w1)" for rf res w1
    using doRequest_sends_once [OF that assms] by simp
  show ?thesis
    by (cases q) (auto simp: query_defs split: sum.splits prod.splits if_splits intro: intro)
qed

lemma doRequestLoop_client:
  assumes "client tc' = client tc"
  shows "doRequestLoop tc' request retries w = doRequestLoop tc request retries w"
proof (induction "5 - retries" arbitrary: retries w)
  case 0
  then show ?case
    by (simp add: doRequestLoop_exhausted)
next
  case (Suc d)
  then have lt: "retries < 5" and d: "d = 5 - Suc retries" by simp_all
  have IH: "doRequestLoop tc' request (Suc retries) v = doRequestLoop tc request (Suc retries) v" for v
    using Suc.hyps(1) [OF d] .
  show ?case
    by (simp add: doRequestLoop.simps [of tc' request retries w]
        doRequestLoop.simps [of tc request retries w] Do_def assms IH
        split: reply.splits option.splits)
qed

lemma doRequest_mode:
  "doRequest lib (tc\<lparr>config := (config tc)\<lparr>SyncMode := mode\<rparr>\<rparr>) rf w = doRequest lib tc rf w"
  by (simp add: doRequest_def doRequestLoop_client [of "tc\<lparr>config := (config tc)\<lparr>SyncMode := mode\<rparr>\<rparr>" tc]
      split: sum.splits)

lemma query_mode:
  "runQuery lib (tc\<lparr>config := (config tc)\<lparr>SyncMode := mode\<rparr>\<rparr>) q w = runQuery lib tc q w"
  by (cases q) (simp_all add: query_defs doRequest_mode defaultApiHeaders_def)

text \<open>
  Claim C2, amended. For every mode (any string), every mutating operation \<open>m\<close> and every
  get operation \<open>q\<close>:
  \<^item> when the spec's table skips \<open>m\<close> in the mode (a remove in dry-run or add-only, an add
    in dry-run), the operation returns no error and sends no request;
  \<^item> otherwise, the library accepting the request and serialising the body, the
    operation calls the request engine once: it sends one and the same request at least
    once and at most five times, and exactly once when no answer is a 429;
  \<^item> a get operation does the same in every mode, and its result does not depend on
    the mode.
\<close>

theorem mode_gating:
  "(specSkips (SyncMode (config tc)) m \<longrightarrow>
      fst (runMutation lib tc m w) = None \<and>
      requestsSent (snd (runMutation lib tc m w)) = requestsSent w) \<and>
   (\<not> specSkips (SyncMode (config tc)) m \<and> libSucceeds lib \<longrightarrow>
      sendsBetween 1 5 w (snd (runMutation lib tc m w)) \<and>
      (neverRateLimits tc \<longrightarrow> sendsBetween 1 1 w (snd (runMutation lib tc m w)))) \<and>
   (libSucceeds lib \<longrightarrow>
      sendsBetween 1 5 w (snd (runQuery lib tc q w)) \<and>
      (neverRateLimits tc \<longrightarrow> sendsBetween 1 1 w (snd (runQuery lib tc q w)))) \<and>
   runQuery lib (tc\<lparr>config := (config tc)\<lparr>SyncMode := mode\<rparr>\<rparr>) q w = runQuery lib tc q w"
proof (intro conjI impI)
  assume "specSkips (SyncMode (config tc)) m"
  then show "fst (runMutation lib tc m w) = None"
    and "requestsSent (snd (runMutation lib tc m w)) = requestsSent w"
    by (simp_all add: mutation_skipped)
next
  assume "\<not> specSkips (SyncMode (config tc)) m \<and> libSucceeds lib"
  then show "sendsBetween 1 5 w (snd (runMutation lib tc m w))"
    by (intro mutation_executed) (simp_all add: libSucceeds_def)
next
  assume "\<not> specSkips (SyncMode (config tc)) m \<and> libSucceeds lib" and "neverRateLimits tc"
  then show "sendsBetween 1 1 w (snd (runMutation lib tc m w))"
    by (intro mutation_executed_once) (simp_all add: libSucceeds_def neverRateLimits_def)
next
  assume "libSucceeds lib"
  then show "sendsBetween 1 5 w (snd (runQuery lib tc q w))"
    by (intro query_executed) (simp add: libSucceeds_def)
next
  assume "libSucceeds lib" and "neverRateLimits tc"
  then show "sendsBetween 1 1 w (snd (runQuery lib tc q w))"
    by (intro query_executed_once) (simp_all add: libSucceeds_def neverRateLimits_def)
next
  show "runQuery lib (tc\<lparr>config := (config tc)\<lparr>SyncMode := mode\<rparr>\<rparr>) q w = runQuery lib tc q w"
    by (rule query_mode)
qed

lemma exampleLib_succeeds: "libSucceeds exampleLib"
  by (simp add: libSucceeds_def exampleLib_def)

lemma ok_never_rate_limits:
  "neverRateLimits (exampleClient (\<lambda>n. answer 200 Map.empty ''{}'') mode)"
  by (simp add: neverRateLimits_def exampleClient_def serverOf_def answer_def
      split: list.splits event.splits)

theorem mode_gating_witness:
  "specSkips (SyncMode (config (exampleClient (\<lambda>n. answer 200 Map.empty ''{}'') ''add-only'')))
     (RatingsRemoveOp [] :: string mutation) \<and>
   runMutation exampleLib (exampleClient (\<lambda>n. answer 200 Map.empty ''{}'') ''add-only'')
     (RatingsRemoveOp []) [] =
     (None, [Logged (LogInfo ''sync mode add-only would have deleted 0 trakt rating item(s)'')]) \<and>
   \<not> specSkips (SyncMode (config (exampleClient (\<lambda>n. answer 200 Map.empty ''{}'') ''add-only'')))
     (RatingsAddOp [] :: string mutation) \<and>
   libSucceeds exampleLib \<and>
   neverRateLimits (exampleClient (\<lambda>n. answer 200 Map.empty ''{}'') ''add-only'') \<and>
   sendsBetween 1 1 []
     (snd (runMutation exampleLib (exampleClient (\<lambda>n. answer 200 Map.empty ''{}'') ''add-only'')
        (RatingsAddOp []) [])) \<and>
   sendsBetween 1 1 []
     (snd (runQuery exampleLib (exampleClient (\<lambda>n. answer 200 Map.empty ''{}'') ''add-only'')
        RatingsGetOp []))"
  using mode_gating
    [of "exampleClient (\<lambda>n. answer 200 Map.empty ''{}'') ''add-only''" "RatingsAddOp []"
        exampleLib "[]" RatingsGetOp]
    mode_gating
    [of "exampleClient (\<lambda>n. answer 200 Map.empty ''{}'') ''add-only''" "RatingsRemoveOp []"
        exampleLib "[]" RatingsGetOp]
    exampleLib_succeeds ok_never_rate_limits [of "''add-only''"]
  by (simp add: specSkips_def exampleClient_def exampleConfig_def RatingsRemove_def mode_defs
      Itoa_def natDigits.simps digitChar_def)

text \<open>
  Claim C2 as stated fails: in the mode full, with a library whose calls succeed,
  \<open>WatchlistItemsAdd\<close> sends two network requests, not exactly one, when the server
  answers the first with 429 and \<open>Retry-After: 1\<close>.
\<close>

theorem rate_limited_add_sends_twice:
  "\<not> specSkips (SyncMode (config (exampleClient rateLimitedOnce ''full'')))
      (WatchlistItemsAddOp [] :: string mutation) \<and>
   libSucceeds exampleLib \<and>
   requestsSent (snd (runMutation exampleLib (exampleClient rateLimitedOnce ''full'')
      (WatchlistItemsAddOp []) [])) =
     [\<lparr>req_Method = ''POST'', req_URL = ''https://api.trakt.tv/sync/watchlist'',
       req_Header = defaultApiHeaders (exampleClient rateLimitedOnce ''full''), req_Body = ''{}''\<rparr>,
      \<lparr>req_Method = ''POST'', req_URL = ''https://api.trakt.tv/sync/watchlist'',
       req_Header = defaultApiHeaders (exampleClient rateLimitedOnce ''full''), req_Body = ''{}''\<rparr>] \<and>
   \<not> sendsBetween 1 1 []
      (snd (runMutation exampleLib (exampleClient rateLimitedOnce ''full'')
         (WatchlistItemsAddOp []) []))"
proof -
  let ?tc = "exampleClient rateLimitedOnce ''full''"
  let ?rf = "\<lparr>Method = MethodPost, BasePath = traktPathBaseAPI, Endpoint = traktPathWatchlist,
              Body = ''{}'', Headers = defaultApiHeaders ?tc\<rparr>"
  let ?req = "builtRequest ?rf"
  let ?r1 = "\<lparr>StatusCode = 429, Header = [''Retry-After'' \<mapsto> [''1'']], resp_Body = [],
              Request = ?req\<rparr>"
  let ?r2 = "\<lparr>StatusCode = 200, Header = Map.empty, resp_Body = ''{}'', Request = ?req\<rparr>"
  let ?d = "word_of_int 1 * Second :: 64 word"
  let ?w = "[] @ [Sent ?req, Logged (WarnRateLimit ?d (req_Method (Request ?r1)) (req_URL (Request ?r1))),
             Slept ?d]"
  have parse: "Atoi ''1'' = Some 1"
    by (simp add: Atoi_def isDigit_def digitVal_def)
  have first: "client ?tc ([] @ [Sent ?req]) = Response ?r1"
    by (simp add: exampleClient_def serverOf_def rateLimitedOnce_def answer_def)
  have second: "client ?tc (?w @ [Sent ?req]) = Response ?r2"
    by (simp add: exampleClient_def serverOf_def rateLimitedOnce_def answer_def)
  have "doRequest exampleLib ?tc ?rf [] = doRequestLoop ?tc ?req 0 []"
    by (rule doRequest_loop) (simp add: exampleLib_def)
  also have "\<dots> = doRequestLoop ?tc ?req (Suc 0) ?w"
    by (rule doRequestLoop_rate_limited [OF _ first]) (simp_all add: Header_Get_def parse)
  also have "\<dots> = (Inr ?r2, ?w @ [Sent ?req])"
    by (rule doRequestLoop_success [OF _ second]) simp_all
  finally have run: "doRequest exampleLib ?tc ?rf [] = (Inr ?r2, ?w @ [Sent ?req])" .
  have marshal: "Marshal_TraktListBody exampleLib b = Inr ''{}''" for b :: "string TraktListBody"
    by (simp add: exampleLib_def)
  have decode: "readTraktResponse exampleLib b = Inr ()" for b
    by (simp add: readTraktResponse_def exampleLib_def)
  have mode: "SyncMode (config ?tc) = ''full''"
    by (simp add: exampleClient_def exampleConfig_def)
  have sent: "requestsSent (snd (runMutation exampleLib ?tc (WatchlistItemsAddOp []) [])) = [?req, ?req]"
    by (simp add: WatchlistItemsAdd_def mode mode_defs marshal run decode)
  have two: "\<not> sendsBetween 1 1 [] (snd (runMutation exampleLib ?tc (WatchlistItemsAddOp []) []))"
    unfolding sent sendsBetween_def by auto
  show ?thesis
    using sent two exampleLib_succeeds
    by (simp add: specSkips_def mode builtRequest_def MethodPost_def traktPathBaseAPI_def
        traktPathWatchlist_def)
qed

subsection \<open>The single list\<close>

lemma doRequestLoop_error_not_found:
  "fst (doRequestLoop tc request retries w) = Inl err \<Longrightarrow> \<not> isNotFound err"
proof (induction "5 - retries" arbitrary: retries w)
  case 0
  then show ?case
    by (auto simp: doRequestLoop_exhausted isNotFound_def)
next
  case (Suc d)
  then have lt: "retries < 5" and d: "d = 5 - Suc retries" by simp_all
  show ?case
  proof (cases "client tc (w @ [Sent request])")
    case (TransportError e)
    then show ?thesis
      using lt Suc.prems by (auto simp: doRequestLoop_transport isNotFound_def)
  next
    case (Response r)
    consider (ok) "StatusCode r = 200 \<or> StatusCode r = 201 \<or> StatusCode r = 204 \<or> StatusCode r = 404"
      | (calm) "StatusCode r = 420"
      | (bad) "StatusCode r = 429" "Atoi (Header_Get (Header r) ''Retry-After'') = None"
      | (wait) k where "StatusCode r = 429" "Atoi (Header_Get (Header r) ''Retry-After'') = Some k"
      | (other) "StatusCode r \<noteq> 200" "StatusCode r \<noteq> 201" "StatusCode r \<noteq> 204"
          "StatusCode r \<noteq> 404" "StatusCode r \<noteq> 420" "StatusCode r \<noteq> 429"
      by (cases "Atoi (Header_Get (Header r) ''Retry-After'')") auto
    then show ?thesis
    proof cases
      case ok
      then show ?thesis
        using lt Response Suc.prems by (simp add: doRequestLoop_success)
    next
      case calm
      then show ?thesis
        using lt Response Suc.prems
        by (auto simp: doRequestLoop_calm isNotFound_def StatusNotFound_def)
    next
      case bad
      then show ?thesis
        using lt Response Suc.prems
        by (auto simp: doRequestLoop_retry_after_malformed isNotFound_def)
    next
      case other
      then show ?thesis
        using lt Response Suc.prems
        by (auto simp: doRequestLoop_unexpected isNotFound_def StatusNotFound_def)
    next
      case wait
      then show ?thesis
        using lt Response Suc.prems Suc.hyps(1) [OF d]
        by (simp add: doRequestLoop_rate_limited)
    qed
  qed
qed

lemma doRequest_error_not_found:
  "fst (doRequest lib tc rf w) = Inl err \<Longrightarrow> \<not> isNotFound err"
  by (cases "NewRequest_err lib (Method rf) (BasePath rf @ Endpoint rf)")
    (auto simp: doRequest_loop doRequest_refused isNotFound_def dest: doRequestLoop_error_not_found)

text \<open>
  Claim C4. When the request of \<open>ListGet\<close> comes back from \<open>doRequest\<close> with a response of
  status 404, \<open>ListGet\<close> returns an \<open>ApiError\<close> of status 404 whose details name the
  requested identifier. An error of \<open>ListGet\<close> passes the not-found test of its callers
  exactly when the endpoint answered 404, and no error of \<open>doRequest\<close>, whose terminal
  errors are the generic ones, ever passes it: the not-found error is told apart from
  every other failure.
\<close>

theorem list_not_found_is_distinguished:
  "(doRequest lib tc (listGetFields tc listId) w = (Inr r, w1) \<and> StatusCode r = StatusNotFound \<longrightarrow>
      ListGet lib tc listId w =
        (Inl (ApiErr
           \<lparr>httpMethod = req_Method (Request r), url = req_URL (Request r),
            err_StatusCode = 404,
            details = ''list with id '' @ listId @ '' could not be found''\<rparr>), w1)) \<and>
   (fst (ListGet lib tc listId w) = Inl err \<longrightarrow>
      isNotFound err =
        (\<exists>r. fst (doRequest lib tc (listGetFields tc listId) w) = Inr r \<and>
             StatusCode r = StatusNotFound)) \<and>
   (fst (doRequest lib tc rf w) = Inl err \<longrightarrow> \<not> isNotFound err)"
proof (intro conjI impI)
  assume "doRequest lib tc (listGetFields tc listId) w = (Inr r, w1) \<and> StatusCode r = StatusNotFound"
  then show "ListGet lib tc listId w =
        (Inl (ApiErr
           \<lparr>httpMethod = req_Method (Request r), url = req_URL (Request r),
            err_StatusCode = 404,
            details = ''list with id '' @ listId @ '' could not be found''\<rparr>), w1)"
    by (simp add: ListGet_def listGetFields_def StatusNotFound_def)
next
  assume err: "fst (ListGet lib tc listId w) = Inl err"
  obtain res w1 where dr: "doRequest lib tc (listGetFields tc listId) w = (res, w1)"
    by force
  show "isNotFound err =
        (\<exists>r. fst (doRequest lib tc (listGetFields tc listId) w) = Inr r \<and>
             StatusCode r = StatusNotFound)"
  proof (cases res)
    case (Inl e)
    then have "err = e"
      using err dr by (simp add: ListGet_def listGetFields_def)
    moreover have "\<not> isNotFound e"
      using doRequest_error_not_found [of lib tc "listGetFields tc listId" w e] dr Inl by simp
    ultimately show ?thesis
      using dr Inl by simp
  next
    case (Inr r)
    show ?thesis
    proof (cases "StatusCode r = StatusNotFound")
      case True
      then show ?thesis
        using err dr Inr
        by (auto simp: ListGet_def listGetFields_def isNotFound_def)
    next
      case False
      then show ?thesis
        using err dr Inr
        by (auto simp: ListGet_def listGetFields_def isNotFound_def readTraktListResponse_def
            split: sum.splits)
    qed
  qed
next
  assume "fst (doRequest lib tc rf w) = Inl err"
  then show "\<not> isNotFound err"
    by (rule doRequest_error_not_found)
qed


lemma doRequest_first_success:
  assumes "NewRequest_err lib (Method rf) (BasePath rf @ Endpoint rf) = None"
    and "client tc (w @ [Sent (builtRequest rf)]) = Response r"
    and "successStatus (StatusCode r)"
  shows "doRequest lib tc rf w = (Inr r, w @ [Sent (builtRequest rf)])"
  using assms by (simp add: doRequest_loop doRequestLoop_success successStatus_def)

lemma doRequest_first_transport:
  assumes "NewRequest_err lib (Method rf) (BasePath rf @ Endpoint rf) = None"
    and "client tc (w @ [Sent (builtRequest rf)]) = TransportError e"
  shows "doRequest lib tc rf w =
           (Inl (SendRequestError (Method rf) (BasePath rf @ Endpoint rf) e),
            w @ [Sent (builtRequest rf)])"
  using assms by (simp add: doRequest_loop doRequestLoop_transport builtRequest_def)

lemmas path_defs = traktPathBaseAPI_def traktPathUserListItems_def MethodGet_def NoBody_def

lemma listsServer_gone:
  "doRequest exampleLib (exampleClient listsServer mode) (listGetFields (exampleClient listsServer mode) ''gone'') w =
     (Inr \<lparr>StatusCode = 404, Header = Map.empty, resp_Body = [],
           Request = builtRequest (listGetFields (exampleClient listsServer mode) ''gone'')\<rparr>,
      w @ [Sent (builtRequest (listGetFields (exampleClient listsServer mode) ''gone''))])"
  by (rule doRequest_first_success)
    (simp_all add: exampleLib_def exampleClient_def exampleConfig_def serverOf_def listsServer_def
      answer_def builtRequest_def listGetFields_def path_defs successStatus_def)

lemma listsServer_kept:
  "doRequest exampleLib (exampleClient listsServer mode) (listGetFields (exampleClient listsServer mode) ''kept'') w =
     (Inr \<lparr>StatusCode = 200, Header = Map.empty, resp_Body = ''[]'',
           Request = builtRequest (listGetFields (exampleClient listsServer mode) ''kept'')\<rparr>,
      w @ [Sent (builtRequest (listGetFields (exampleClient listsServer mode) ''kept''))])"
  by (rule doRequest_first_success)
    (simp_all add: exampleLib_def exampleClient_def exampleConfig_def serverOf_def listsServer_def
      answer_def builtRequest_def listGetFields_def path_defs successStatus_def)

theorem list_not_found_is_distinguished_witness:
  "doRequest exampleLib (exampleClient listsServer ''full'')
     (listGetFields (exampleClient listsServer ''full'') ''gone'') [] =
     (Inr \<lparr>StatusCode = 404, Header = Map.empty, resp_Body = [],
           Request = builtRequest (listGetFields (exampleClient listsServer ''full'') ''gone'')\<rparr>,
      [Sent (builtRequest (listGetFields (exampleClient listsServer ''full'') ''gone''))]) \<and>
   ListGet exampleLib (exampleClient listsServer ''full'') ''gone'' [] =
     (Inl (ApiErr
        \<lparr>httpMethod = ''GET'', url = ''https://api.trakt.tv/users/bob/lists/gone/items'',
         err_StatusCode = 404, details = ''list with id gone could not be found''\<rparr>),
      [Sent (builtRequest (listGetFields (exampleClient listsServer ''full'') ''gone''))]) \<and>
   isNotFound (ApiErr
        \<lparr>httpMethod = ''GET'', url = ''https://api.trakt.tv/users/bob/lists/gone/items'',
         err_StatusCode = 404, details = ''list with id gone could not be found''\<rparr>)"
  using list_not_found_is_distinguished
    [of exampleLib "exampleClient listsServer ''full''" "''gone''" "[]"
        "\<lparr>StatusCode = 404, Header = Map.empty, resp_Body = [],
          Request = builtRequest (listGetFields (exampleClient listsServer ''full'') ''gone'')\<rparr>"
        "[Sent (builtRequest (listGetFields (exampleClient listsServer ''full'') ''gone''))]"
        "ApiErr \<lparr>httpMethod = ''GET'', url = ''https://api.trakt.tv/users/bob/lists/gone/items'',
         err_StatusCode = 404, details = ''list with id gone could not be found''\<rparr>"]
    listsServer_gone [of "''full''" "[]"]
  by (simp add: StatusNotFound_def builtRequest_def listGetFields_def path_defs
      exampleClient_def exampleConfig_def)

section \<open>Properties of the authorisation step\<close>

lemma Split_not_Nil [simp]: "Split s sep \<noteq> []"
  by (induction s) (auto split: list.splits)

lemma Split_length: "length (Split s sep) = Suc (count_list s sep)"
  by (induction s) (auto split: list.splits)

lemma Split_pieces: "p \<in> set (Split s sep) \<Longrightarrow> sep \<notin> set p"
  by (induction s arbitrary: p) (auto split: list.splits if_splits)

lemma Split_join: "joinWith sep (Split s sep) = s"
proof (induction s)
  case Nil
  show ?case by simp
next
  case (Cons c cs)
  obtain p ps where ps: "Split cs sep = p # ps"
    by (cases "Split cs sep") simp_all
  show ?case
    using Cons.IH ps by (cases ps) auto
qed

text \<open>
  Claim C7. Once \<open>doRequest\<close> has returned the page and the scrape has returned the value
  \<open>v\<close> of the anchor's \<open>href\<close>: when splitting \<open>v\<close> on \<open>/\<close> gives exactly three segments,
  \<open>ActivateAuthorize\<close> returns no error and the client with \<open>username\<close> set to the last
  of them, which is what follows the second \<open>/\<close> of \<open>v\<close>; with any other number of
  segments it returns the scraping error and leaves the client as it was.
\<close>

theorem username_is_third_of_three_segments:
  assumes "doRequest lib tc (activateAuthorizeFields lib authenticityToken) w = (Inr response, w1)"
    and "scrapeSelectionAttribute lib (resp_Body response) (clientNameTrakt lib)
           ''#desktop-user-avatar'' ''href'' = Inr v"
  shows "(length (Split v (CHR ''/'')) = 3 \<longrightarrow>
            ActivateAuthorize lib tc authenticityToken w =
              (None, tc\<lparr>config := (config tc)\<lparr>username := last (Split v (CHR ''/''))\<rparr>\<rparr>, w1) \<and>
            (\<exists>a b c. Split v (CHR ''/'') = [a, b, c] \<and> v = a @ ''/'' @ b @ ''/'' @ c \<and>
               CHR ''/'' \<notin> set c)) \<and>
         (length (Split v (CHR ''/'')) \<noteq> 3 \<longrightarrow>
            ActivateAuthorize lib tc authenticityToken w = (Some ScrapeUsernameError, tc, w1))"
proof (intro conjI impI)
  assume three: "length (Split v (CHR ''/'')) = 3"
  then obtain a b c where abc: "Split v (CHR ''/'') = [a, b, c]"
    by (auto simp: length_Suc_conv numeral_3_eq_3)
  have "joinWith (CHR ''/'') (Split v (CHR ''/'')) = v"
    by (rule Split_join)
  then have v: "v = a @ ''/'' @ b @ ''/'' @ c"
    by (simp add: abc)
  have c: "CHR ''/'' \<notin> set c"
    by (rule Split_pieces [of c v]) (simp add: abc)
  show "\<exists>a b c. Split v (CHR ''/'') = [a, b, c] \<and> v = a @ ''/'' @ b @ ''/'' @ c \<and>
               CHR ''/'' \<notin> set c"
    using abc v c by blast
  show "ActivateAuthorize lib tc authenticityToken w =
          (None, tc\<lparr>config := (config tc)\<lparr>username := last (Split v (CHR ''/''))\<rparr>\<rparr>, w1)"
    using assms
    by (simp add: ActivateAuthorize_def activateAuthorizeFields_def Let_def abc)
next
  assume "length (Split v (CHR ''/'')) \<noteq> 3"
  then show "ActivateAuthorize lib tc authenticityToken w = (Some ScrapeUsernameError, tc, w1)"
    using assms
    by (simp add: ActivateAuthorize_def activateAuthorizeFields_def Let_def)
qed

lemma profileServer_answers:
  "doRequest exampleLib (exampleClient (profileServer href) mode)
     (activateAuthorizeFields exampleLib t) w =
     (Inr \<lparr>StatusCode = 200, Header = Map.empty, resp_Body = href,
           Request = builtRequest (activateAuthorizeFields exampleLib t)\<rparr>,
      w @ [Sent (builtRequest (activateAuthorizeFields exampleLib t))])"
  by (rule doRequest_first_success)
    (simp_all add: exampleLib_def exampleClient_def serverOf_def profileServer_def
      answer_def successStatus_def)

theorem username_is_third_of_three_segments_witness:
  "doRequest exampleLib (exampleClient (profileServer ''/users/bob'') ''full'')
     (activateAuthorizeFields exampleLib ''token'') [] =
     (Inr \<lparr>StatusCode = 200, Header = Map.empty, resp_Body = ''/users/bob'',
           Request = builtRequest (activateAuthorizeFields exampleLib ''token'')\<rparr>,
      [Sent (builtRequest (activateAuthorizeFields exampleLib ''token''))]) \<and>
   scrapeSelectionAttribute exampleLib ''/users/bob'' (clientNameTrakt exampleLib)
     ''#desktop-user-avatar'' ''href'' = Inr ''/users/bob'' \<and>
   Split ''/users/bob'' (CHR ''/'') = ['''', ''users'', ''bob''] \<and>
   ActivateAuthorize exampleLib (exampleClient (profileServer ''/users/bob'') ''full'') ''token'' [] =
     (None,
      \<lparr>client = serverOf (profileServer ''/users/bob''),
       config = (exampleConfig ''full'')\<lparr>username := ''bob''\<rparr>\<rparr>,
      [Sent (builtRequest (activateAuthorizeFields exampleLib ''token''))])"
  using username_is_third_of_three_segments
    [of exampleLib "exampleClient (profileServer ''/users/bob'') ''full''" "''token''" "[]"
        "\<lparr>StatusCode = 200, Header = Map.empty, resp_Body = ''/users/bob'',
          Request = builtRequest (activateAuthorizeFields exampleLib ''token'')\<rparr>"
        "[Sent (builtRequest (activateAuthorizeFields exampleLib ''token''))]" "''/users/bob''"]
    profileServer_answers [of "''/users/bob''" "''full''" "''token''" "[]"]
  by (simp add: exampleLib_def exampleClient_def)

section \<open>Properties of the concurrent list fetcher\<close>

lemma ListGet_fields:
  "ListGet lib tc listId w =
     (case doRequest lib tc (listGetFields tc listId) w of
        (Inl err, w1) \<Rightarrow> (Inl err, w1)
      | (Inr response, w1) \<Rightarrow>
          if StatusCode response = StatusNotFound then
            (Inl (ApiErr
               \<lparr>httpMethod = req_Method (Request response),
                url = req_URL (Request response),
                err_StatusCode = StatusCode response,
                details = ''list with id '' @ listId @ '' could not be found''\<rparr>), w1)
          else
            (readTraktListResponse lib (resp_Body response)
               \<lparr>Ids = \<lparr>Slug = listId\<rparr>, IsWatchlist = False, ListItems = []\<rparr>, w1))"
  by (simp add: ListGet_def listGetFields_def)

lemma exampleLib_decodes_list:
  "readTraktListResponse exampleLib body l = Inr (l\<lparr>ListItems := []\<rparr>)"
  by (simp add: readTraktListResponse_def exampleLib_def)

lemma ListGet_kept:
  "ListGet exampleLib (exampleClient listsServer mode) ''kept'' w =
     (Inr \<lparr>Ids = \<lparr>Slug = ''kept''\<rparr>, IsWatchlist = False, ListItems = []\<rparr>,
      w @ [Sent (builtRequest (listGetFields (exampleClient listsServer mode) ''kept''))])"
  by (simp add: ListGet_fields listsServer_kept StatusNotFound_def exampleLib_decodes_list)

lemma ListGet_gone:
  "ListGet exampleLib (exampleClient listsServer mode) ''gone'' w =
     (Inl (ApiErr
        \<lparr>httpMethod = ''GET'', url = ''https://api.trakt.tv/users/bob/lists/gone/items'',
         err_StatusCode = 404, details = ''list with id gone could not be found''\<rparr>),
      w @ [Sent (builtRequest (listGetFields (exampleClient listsServer mode) ''gone''))])"
  by (simp add: ListGet_fields listsServer_gone StatusNotFound_def)
    (simp add: builtRequest_def listGetFields_def path_defs exampleClient_def exampleConfig_def)

lemma ListGet_unreachable:
  "ListGet exampleLib (exampleClient unreachableServer mode) ''kept'' w =
     (Inl (SendRequestError ''GET'' ''https://api.trakt.tv/users/bob/lists/kept/items''
             ''dial tcp: connection refused''),
      w @ [Sent (builtRequest (listGetFields (exampleClient unreachableServer mode) ''kept''))])"
proof -
  have "doRequest exampleLib (exampleClient unreachableServer mode)
          (listGetFields (exampleClient unreachableServer mode) ''kept'') w =
        (Inl (SendRequestError ''GET'' ''https://api.trakt.tv/users/bob/lists/kept/items''
                ''dial tcp: connection refused''),
         w @ [Sent (builtRequest (listGetFields (exampleClient unreachableServer mode) ''kept''))])"
    using doRequest_first_transport
      [of exampleLib "listGetFields (exampleClient unreachableServer mode) ''kept''"
          "exampleClient unreachableServer mode" w "''dial tcp: connection refused''"]
    by (simp add: exampleLib_def exampleClient_def exampleConfig_def serverOf_def
        unreachableServer_def listGetFields_def path_defs builtRequest_def)
  then show ?thesis
    by (simp add: ListGet_fields)
qed

text \<open>
  Claim C5, at the inputs where the code leaves it. Of the two identifiers \<open>kept\<close> and
  \<open>gone\<close> exactly one yields the 404 not-found error. When the caller receives the list
  of \<open>kept\<close> before \<open>doneChan\<close> is closed, \<open>ListsGet\<close> returns that one list and no error.
  When both tasks have finished and \<open>doneChan\<close> is closed before the caller's \<open>select\<close>
  runs, the cases of \<open>outChan\<close> and \<open>doneChan\<close> can both proceed, and the run that takes
  \<open>doneChan\<close> returns no list at all, and no error. In the same way, with one identifier
  whose fetch fails on the transport, the run that takes \<open>errChan\<close> returns that error,
  wrapped, and the run that takes the closed \<open>doneChan\<close> returns no list and no error.
\<close>

theorem bulk_fetch_can_lose_a_list:
  "fst (ListGet exampleLib (exampleClient listsServer ''full'') ''kept'' []) =
     Inr \<lparr>Ids = \<lparr>Slug = ''kept''\<rparr>, IsWatchlist = False, ListItems = []\<rparr> \<and>
   fst (ListGet exampleLib (exampleClient listsServer ''full'') ''gone'' []) =
     Inl (ApiErr
        \<lparr>httpMethod = ''GET'', url = ''https://api.trakt.tv/users/bob/lists/gone/items'',
         err_StatusCode = 404, details = ''list with id gone could not be found''\<rparr>) \<and>
   map_option fst
     (ListsGet exampleLib (exampleClient listsServer ''full'') [\<lparr>Slug = ''kept''\<rparr>, \<lparr>Slug = ''gone''\<rparr>]
        [Spawn, Spawn, RunTask 0, RecvOut, RunTask 0, CloseDone, RecvDone] []) =
     Some (Inr [\<lparr>Ids = \<lparr>Slug = ''kept''\<rparr>, IsWatchlist = False, ListItems = []\<rparr>]) \<and>
   map_option fst
     (ListsGet exampleLib (exampleClient listsServer ''full'') [\<lparr>Slug = ''kept''\<rparr>, \<lparr>Slug = ''gone''\<rparr>]
        [Spawn, Spawn, RunTask 0, RunTask 0, CloseDone, RecvDone] []) =
     Some (Inr []) \<and>
   map_option fst
     (ListsGet exampleLib (exampleClient unreachableServer ''full'') [\<lparr>Slug = ''kept''\<rparr>]
        [Spawn, RunTask 0, RecvErr] []) =
     Some (Inl (FetchListsError
        (SendRequestError ''GET'' ''https://api.trakt.tv/users/bob/lists/kept/items''
           ''dial tcp: connection refused''))) \<and>
   map_option fst
     (ListsGet exampleLib (exampleClient unreachableServer ''full'') [\<lparr>Slug = ''kept''\<rparr>]
        [Spawn, RunTask 0, CloseDone, RecvDone] []) =
     Some (Inr [])"
  by (simp add: ListsGet_def fetchTask_def ListGet_kept ListGet_gone ListGet_unreachable
      StatusNotFound_def)

end
